theory Spec2Isabelle
  imports Complex_Main
begin

section \<open>Python strings\<close>

text \<open>
  A Python \<open>str\<close> is modelled as a \<open>string\<close> whose characters are the code points
  below 256. \<open>py_isspace\<close> is \<open>str.isspace\<close> on that range, \<open>py_lower_char\<close> is
  \<open>str.lower\<close> on it.
\<close>

abbreviation NL :: char where
  "NL \<equiv> CHR 0x0A"

abbreviation DQ :: char where
  "DQ \<equiv> CHR 0x22"

definition py_isspace :: "char \<Rightarrow> bool" where
  "py_isspace c =
     (let n = of_char c :: nat
      in (9 \<le> n \<and> n \<le> 13) \<or> (28 \<le> n \<and> n \<le> 32) \<or> n = 133 \<or> n = 160)"

definition strip :: "string \<Rightarrow> string" where
  "strip s = rev (dropWhile py_isspace (rev (dropWhile py_isspace s)))"

definition py_lower_char :: "char \<Rightarrow> char" where
  "py_lower_char c =
     (let n = of_char c :: nat
      in if (65 \<le> n \<and> n \<le> 90) \<or> (192 \<le> n \<and> n \<le> 222 \<and> n \<noteq> 215)
         then char_of (n + 32) else c)"

definition lower :: "string \<Rightarrow> string" where
  "lower s = map py_lower_char s"

text \<open>
  \<open>str.capitalize\<close>: the source applies it to the role names \<open>user\<close> and
  \<open>assistant\<close> only, so the first character is upper-cased in the ASCII range.
\<close>

definition py_upper_ascii :: "char \<Rightarrow> char" where
  "py_upper_ascii c =
     (let n = of_char c :: nat
      in if 97 \<le> n \<and> n \<le> 122 then char_of (n - 32) else c)"

definition capitalize :: "string \<Rightarrow> string" where
  "capitalize s = (case s of [] \<Rightarrow> [] | c # cs \<Rightarrow> py_upper_ascii c # lower cs)"

definition startswith :: "string \<Rightarrow> string \<Rightarrow> bool" where
  "startswith s p = (take (length p) s = p)"

definition endswith :: "string \<Rightarrow> string \<Rightarrow> bool" where
  "endswith s p = (length p \<le> length s \<and> drop (length s - length p) s = p)"

text \<open>\<open>contains s k\<close> is Python's \<open>k in s\<close> on strings.\<close>

fun contains :: "string \<Rightarrow> string \<Rightarrow> bool" where
  "contains [] k = (k = [])"
| "contains (c # cs) k = (startswith (c # cs) k \<or> contains cs k)"

text \<open>\<open>join sep xs\<close> is \<open>sep.join(xs)\<close>.\<close>

fun join :: "string \<Rightarrow> string list \<Rightarrow> string" where
  "join sep [] = []"
| "join sep [x] = x"
| "join sep (x # y # ys) = x @ sep @ join sep (y # ys)"

text \<open>\<open>str(i)\<close> for a natural number.\<close>

definition digit_char :: "nat \<Rightarrow> char" where
  "digit_char d = ''0123456789'' ! d"

fun str_nat :: "nat \<Rightarrow> string" where
  "str_nat n = (if n < 10 then [digit_char n] else str_nat (n div 10) @ [digit_char (n mod 10)])"

declare str_nat.simps [simp del]


section \<open>Floating-point numbers\<close>

text \<open>
  The scores of the index and the similarities computed from them are binary
  floating-point numbers. A finite float is modelled by the real number it denotes, and
  an arithmetic operation by the exact operation followed by \<open>fl\<close>, the rounding to the
  nearest float of the format, ties to the even significand, with gradual underflow.

  A format has \<open>precision\<close> significand bits and normal exponents from \<open>emin\<close> to
  \<open>emax\<close>. \<open>binade x\<close> is the exponent of the power of two at or below \<open>\<bar>x\<bar>\<close>, and
  \<open>ulp f x\<close> the distance between neighbouring floats of format \<open>f\<close> around \<open>x\<close>.
  Overflow is not modelled: for a score that is a float, \<open>1 + score\<close> is at most the
  largest float, and it is either zero or at least half the spacing of the floats near
  \<open>1\<close>, so that the quotient does not overflow either.
\<close>

record float_format =
  precision :: nat
  emin :: int
  emax :: int

definition binary64 :: float_format where
  "binary64 = \<lparr>precision = 53, emin = - 1022, emax = 1023\<rparr>"

definition binary32 :: float_format where
  "binary32 = \<lparr>precision = 24, emin = - 126, emax = 127\<rparr>"

definition binade :: "real \<Rightarrow> int" where
  "binade x = \<lfloor>log 2 \<bar>x\<bar>\<rfloor>"

definition ulp :: "float_format \<Rightarrow> real \<Rightarrow> real" where
  "ulp f x = 2 powr (of_int (max (binade x) (emin f)) - of_nat (precision f) + 1)"

text \<open>Rounding of a real to the nearest integer, a tie going to the even one.\<close>

definition rne :: "real \<Rightarrow> int" where
  "rne y = (let n = \<lfloor>y\<rfloor>; r = y - of_int n
            in if r < 1 / 2 then n else if 1 / 2 < r then n + 1
               else if even n then n else n + 1)"

definition fl :: "float_format \<Rightarrow> real \<Rightarrow> real" where
  "fl f x = (if x = 0 then 0 else ulp f x * of_int (rne (x / ulp f x)))"

text \<open>
  The value of a float expression: a finite number or the infinity that a division by
  zero yields where it does not raise.
\<close>

datatype fvalue = Finite real | Infinity

text \<open>
  How the numbers of a run behave: the format in which \<open>1 + score\<close> and the quotient
  are computed (the type of the scores), the format in which the literal \<open>0.4\<close> enters
  the comparison, and whether a division by zero raises. Python's own \<open>float\<close> is
  binary64 and raises \<open>ZeroDivisionError\<close>. The scores of FAISS are \<open>numpy.float32\<close>:
  under NumPy 2 the Python constants \<open>1\<close> and \<open>0.4\<close> take the type of the score, and a
  division by zero gives \<open>inf\<close> with a warning. (Under NumPy 1 the same scores are
  promoted to binary64, another value of this record.)
\<close>

record number_impl =
  score_format :: float_format
  literal_format :: float_format
  zero_division_raises :: bool

definition python_float :: number_impl where
  "python_float = \<lparr>score_format = binary64, literal_format = binary64,
     zero_division_raises = True\<rparr>"

definition numpy_float32 :: number_impl where
  "numpy_float32 = \<lparr>score_format = binary32, literal_format = binary32,
     zero_division_raises = False\<rparr>"


section \<open>Relevance-gated retrieval (pdf\_retrieval.py)\<close>

text \<open>
  A chunk held by the vector index (a LangChain \<open>Document\<close>). The index itself is its
  list of chunks; how it embeds and ranks them is the external capability
  \<open>similarity_search_with_score\<close> of the environment below.
\<close>

record document =
  page_content :: string
  doc_metadata :: "(string \<times> string) list"

type_synonym vector_store = "document list"

text \<open>
  The expression \<^verbatim>\<open>1 / (1 + score)\<close>: the sum is rounded, then the quotient. When
  the rounded sum is zero the division raises (\<open>Inl\<close> of the message of the
  \<open>ZeroDivisionError\<close>) or gives infinity, as the numbers of the run have it.
\<close>

definition similarity :: "number_impl \<Rightarrow> real \<Rightarrow> string + fvalue" where
  "similarity n score =
     (let t = fl (score_format n) (1 + score)
      in if t = 0
         then (if zero_division_raises n then Inl ''float division by zero''
               else Inr Infinity)
         else Inr (Finite (fl (score_format n) (1 / t))))"

text \<open>The literal \<^verbatim>\<open>0.4\<close> as a float, and the comparison \<^verbatim>\<open>s > 0.4\<close>.\<close>

definition threshold :: "number_impl \<Rightarrow> real" where
  "threshold n = fl (literal_format n) (2 / 5)"

fun exceeds :: "fvalue \<Rightarrow> real \<Rightarrow> bool" where
  "exceeds Infinity c = True"
| "exceeds (Finite s) c = (c < s)"

text \<open>
  The list comprehension of \<open>pdf_retrieval_tool\<close>:
  \<^verbatim>\<open>[doc.page_content.strip() for doc, score in results
      if (1 / (1 + score)) > 0.4 and doc.page_content.strip()]\<close>
  The division is evaluated for every element; an error it raises ends the
  comprehension.
\<close>

fun relevant_content :: "number_impl \<Rightarrow> (document \<times> real) list \<Rightarrow> string + string list" where
  "relevant_content n [] = Inr []"
| "relevant_content n ((doc, score) # rest) =
     (case similarity n score of
        Inl e \<Rightarrow> Inl e
      | Inr s \<Rightarrow>
          (case relevant_content n rest of
             Inl e \<Rightarrow> Inl e
           | Inr acc \<Rightarrow>
               Inr (if exceeds s (threshold n) \<and> strip (page_content doc) \<noteq> []
                    then strip (page_content doc) # acc else acc)))"

text \<open>
  The external capabilities. Each one either raises (\<open>Inl\<close> of the exception's
  message) or returns. \<open>similarity_search_with_score\<close> is the index query (index,
  query, k); \<open>llm_invoke\<close> the language model; \<open>tavily_invoke\<close> the web search
  (maximal number of results, search depth, query), whose value is a list of results or
  some other value; \<open>graph_error\<close> an error of the workflow runtime raised by
  \<open>graph.invoke\<close> outside the nodes; \<open>load_pdf\<close> the PDF loader (path);
  \<open>split_documents\<close> the text splitter (chunk size, overlap, pages); \<open>read_file\<close>
  the bytes of a file; \<open>sha256_hexdigest\<close> the hash of the hash library;
  \<open>embed_error\<close> the failure of the embedding of chunks, if any; \<open>getsize\<close> the size
  of a file. \<open>numbers\<close> says how the scores that the index returns compute.
\<close>

datatype message = HumanMessage string | AIMessage string | SystemMessage string

record web_result =
  url :: "string option"
  content :: "string option"

datatype tavily_output = ResultList "web_result list" | NotAList

type_synonym bytes = "char list"

record env =
  similarity_search_with_score :: "vector_store \<Rightarrow> string \<Rightarrow> nat \<Rightarrow> string + (document \<times> real) list"
  llm_invoke :: "message list \<Rightarrow> string + string"
  tavily_invoke :: "nat \<Rightarrow> string \<Rightarrow> string \<Rightarrow> string + tavily_output"
  graph_error :: "string option"
  load_pdf :: "string \<Rightarrow> string + document list"
  split_documents :: "nat \<Rightarrow> nat \<Rightarrow> document list \<Rightarrow> document list"
  read_file :: "string \<Rightarrow> string + bytes"
  sha256_hexdigest :: "bytes \<Rightarrow> string"
  embed_error :: "document list \<Rightarrow> string option"
  getsize :: "string \<Rightarrow> string + nat"
  numbers :: number_impl

definition pdf_retrieval_tool :: "env \<Rightarrow> string \<Rightarrow> vector_store option \<Rightarrow> string" where
  "pdf_retrieval_tool e q vs_opt =
     (case vs_opt of
        None \<Rightarrow> ''Error: No PDF documents uploaded yet.''
      | Some vs \<Rightarrow>
          (case similarity_search_with_score e vs q 3 of
             Inl msg \<Rightarrow> ''Error: Failed to process PDF retrieval - '' @ msg
           | Inr results \<Rightarrow>
               (case results of
                  [] \<Rightarrow> ''NO_RELEVANT_CONTENT''
                | (best_doc, best_score) # _ \<Rightarrow>
                    (case similarity (numbers e) best_score of
                       Inl msg \<Rightarrow> ''Error: Failed to process PDF retrieval - '' @ msg
                     | Inr best_similarity \<Rightarrow>
                         (case relevant_content (numbers e) results of
                            Inl msg \<Rightarrow> ''Error: Failed to process PDF retrieval - '' @ msg
                          | Inr rc \<Rightarrow>
                              if rc \<noteq> []
                              then ''PDF Content: '' @ join [NL, NL] (take 2 rc)
                              else ''NO_RELEVANT_CONTENT'')))))"


section \<open>Web fallback search (tavily\_tool.py)\<close>

record tavily_config =
  max_results :: nat
  search_depth :: string

definition tavily_tool :: tavily_config where
  "tavily_tool = \<lparr>max_results = 5, search_depth = ''advanced''\<rparr>"

text \<open>\<open>d.get(key, default)\<close> on a field that may be absent.\<close>

definition dict_get :: "string option \<Rightarrow> string \<Rightarrow> string" where
  "dict_get v dflt = (case v of None \<Rightarrow> dflt | Some x \<Rightarrow> x)"

definition format_part :: "nat \<Rightarrow> web_result \<Rightarrow> string" where
  "format_part i r =
     ''Source '' @ str_nat i @ '' ('' @ dict_get (url r) ''No URL'' @ ''): ''
       @ take 400 (dict_get (content r) ''No content'') @ ''...''"

text \<open>
  \<^verbatim>\<open>[f"Source {i} (...): ...[:400]..." for i, result in enumerate(results[:3], 1)
      if result.get('content', '').strip()]\<close>
\<close>

definition content_parts :: "web_result list \<Rightarrow> string list" where
  "content_parts results =
     [format_part i r. (i, r) \<leftarrow> enumerate 1 (take 3 results),
                       strip (dict_get (content r) []) \<noteq> []]"


section \<open>Persistent store (history.py)\<close>

record session =
  session_id :: string
  created_at :: nat
  session_metadata :: "(string \<times> string) list"

record chat_turn =
  turn_session_id :: string
  turn_content :: string
  turn_role :: string
  turn_timestamp :: nat
  turn_metadata :: "(string \<times> string) list"

record doc_record =
  doc_session_id :: string
  filename :: string
  file_size :: nat
  content_hash :: string
  chunk_count :: nat
  upload_timestamp :: nat
  status :: string

text \<open>The state of the workflow (\<open>State\<close> of agent.py).\<close>

record state =
  messages :: "message list"
  query :: string
  thread_id :: string
  pdf_searched :: bool
  web_searched :: bool
  final_answer :: string
  pdf_found_content :: bool

text \<open>
  The state the program works on: the three collections of the store, the schedule of
  store faults (each operation on a collection takes the head: \<open>True\<close> makes the
  operation raise, an empty schedule means no fault), the clock read by
  \<open>datetime.utcnow\<close>, the vector index and the compiled workflow of the pipeline, the
  log of the queries sent to the web-search capability, and the log of the states
  handed to \<open>graph.invoke\<close>.
\<close>

record world =
  sessions :: "session list"
  chat_history :: "chat_turn list"
  documents :: "doc_record list"
  store_faults :: "bool list"
  clock :: nat
  vector_store :: "vector_store option"
  graph :: bool
  web_queries :: "string list"
  graph_inputs :: "state list"

definition store_op :: "world \<Rightarrow> bool \<times> world" where
  "store_op w =
     (case store_faults w of
        [] \<Rightarrow> (True, w)
      | f # fs \<Rightarrow> (\<not> f, w\<lparr>store_faults := fs\<rparr>))"

definition utcnow :: "world \<Rightarrow> nat \<times> world" where
  "utcnow w = (clock w, w\<lparr>clock := Suc (clock w)\<rparr>)"

definition metadata_or_empty :: "(string \<times> string) list option \<Rightarrow> (string \<times> string) list" where
  "metadata_or_empty m = (case m of None \<Rightarrow> [] | Some kv \<Rightarrow> kv)"

text \<open>
  \<open>save_session\<close>: the \<open>sessions\<close> collection has a unique index on \<open>session_id\<close>,
  so inserting a second record of a session raises, which the handler turns into
  \<open>False\<close>.
\<close>

definition save_session :: "world \<Rightarrow> string \<Rightarrow> (string \<times> string) list option \<Rightarrow> bool \<times> world" where
  "save_session w sid metadata =
     (if sid = [] then (False, w)
      else (case store_op w of
              (False, w1) \<Rightarrow> (False, w1)
            | (True, w1) \<Rightarrow>
                (case utcnow w1 of
                   (now, w2) \<Rightarrow>
                     if list_ex (\<lambda>s. session_id s = sid) (sessions w2) then (False, w2)
                     else (True, w2\<lparr>sessions := sessions w2 @
                             [\<lparr>session_id = sid, created_at = now,
                               session_metadata = metadata_or_empty metadata\<rparr>]\<rparr>))))"

definition get_session :: "world \<Rightarrow> string \<Rightarrow> session option \<times> world" where
  "get_session w sid =
     (case store_op w of
        (False, w1) \<Rightarrow> (None, w1)
      | (True, w1) \<Rightarrow> (find (\<lambda>s. session_id s = sid) (sessions w1), w1))"

definition save_message ::
  "world \<Rightarrow> string \<Rightarrow> string \<Rightarrow> string \<Rightarrow> (string \<times> string) list option \<Rightarrow> bool \<times> world" where
  "save_message w sid msg role metadata =
     (if sid = [] \<or> msg = [] \<or> role = [] then (False, w)
      else if role \<notin> set [''user'', ''assistant'', ''system''] then (False, w)
      else (case get_session w sid of
              (found, w1) \<Rightarrow>
                (let w2 = (if found = None then snd (save_session w1 sid None) else w1)
                 in (case store_op w2 of
                       (False, w3) \<Rightarrow> (False, w3)
                     | (True, w3) \<Rightarrow>
                         (case utcnow w3 of
                            (now, w4) \<Rightarrow>
                              (True, w4\<lparr>chat_history := chat_history w4 @
                                 [\<lparr>turn_session_id = sid, turn_content = msg, turn_role = role,
                                   turn_timestamp = now,
                                   turn_metadata = metadata_or_empty metadata\<rparr>]\<rparr>))))))"

text \<open>
  \<open>load_history\<close>: \<open>find({"session_id": ...}).sort("timestamp", 1).limit(limit)\<close>, each
  record as the triple (role, content, timestamp).
\<close>

definition load_history :: "world \<Rightarrow> string \<Rightarrow> nat \<Rightarrow> (string \<times> string \<times> nat) list \<times> world" where
  "load_history w sid limit =
     (case store_op w of
        (False, w1) \<Rightarrow> ([], w1)
      | (True, w1) \<Rightarrow>
          (map (\<lambda>m. (turn_role m, turn_content m, turn_timestamp m))
             (take limit (sort_key turn_timestamp
                (filter (\<lambda>m. turn_session_id m = sid) (chat_history w1)))), w1))"


section \<open>The web search tool and the orchestrator (tavily\_tool.py, agent.py)\<close>

text \<open>
  \<open>tavily_search_tool\<close>: every call is recorded in \<open>web_queries\<close> before the external
  capability answers.
\<close>

definition tavily_search_tool :: "env \<Rightarrow> world \<Rightarrow> string \<Rightarrow> string \<times> world" where
  "tavily_search_tool e w q =
     (let w1 = w\<lparr>web_queries := web_queries w @ [q]\<rparr>
      in (case tavily_invoke e (max_results tavily_tool) (search_depth tavily_tool) q of
            Inl msg \<Rightarrow> (''Error: Unable to fetch web results - '' @ msg, w1)
          | Inr NotAList \<Rightarrow> (''No web results found'', w1)
          | Inr (ResultList results) \<Rightarrow>
              if results = [] then (''No web results found'', w1)
              else if content_parts results \<noteq> []
                   then (''Web Search Results: '' @ join [NL, NL] (content_parts results), w1)
                   else (''No relevant web content found'', w1)))"

definition SYSTEM_PROMPT :: string where
  "SYSTEM_PROMPT =
     [NL] @ ''You are an assistant that answers user queries accurately and comprehensively based solely on the provided context. ''
     @ [NL] @ ''First, ALWAYS try to find the answer in the provided PDF document using the pdf_retrieval_tool. ''
     @ [NL] @ ''If the PDF doesn't contain relevant information, you must use the tavily_search_tool to search the web.''
     @ [NL] @ ''Provide clear, accurate, and relevant responses strictly based on the retrieved information. If the information is insufficient, state clearly that no relevant information was found and avoid making assumptions or generating unverified content.''
     @ [NL]"

definition pdf_prompt :: "string \<Rightarrow> string \<Rightarrow> string" where
  "pdf_prompt q pdf_result =
     [NL] @ ''Based on the following information from the PDF document, provide a clear and comprehensive answer to the user's query: ''
     @ [DQ] @ q @ [DQ] @ [NL, NL]
     @ ''PDF Information:'' @ [NL] @ pdf_result @ [NL, NL]
     @ ''Please provide a well-structured response based on the PDF content. Make sure to be specific and accurate.''
     @ [NL]"

text \<open>
  A node returns the keys it sets; the workflow runtime writes them into the state, and
  appends to \<open>messages\<close>. The node functions below return the state so updated.
\<close>

definition pdf_search_node :: "env \<Rightarrow> state \<Rightarrow> vector_store option \<Rightarrow> state" where
  "pdf_search_node e st vs_opt =
     (case vs_opt of
        None \<Rightarrow>
          st\<lparr>pdf_searched := True, web_searched := False,
             final_answer := ''Error: No PDF documents uploaded yet.'',
             pdf_found_content := False,
             messages := messages st @ [AIMessage ''Error: No PDF documents uploaded yet.'']\<rparr>
      | Some vs \<Rightarrow>
          (let pdf_result = pdf_retrieval_tool e (query st) (Some vs)
           in if pdf_result \<noteq> ''NO_RELEVANT_CONTENT'' \<and> \<not> startswith pdf_result ''Error:''
              then (let answer =
                          (case llm_invoke e [SystemMessage SYSTEM_PROMPT,
                                              HumanMessage (pdf_prompt (query st) pdf_result)] of
                             Inr response \<Rightarrow> response
                           | Inl err \<Rightarrow> ''Based on the PDF: '' @ pdf_result)
                    in st\<lparr>pdf_searched := True, web_searched := False,
                          final_answer := answer, pdf_found_content := True,
                          messages := messages st @ [AIMessage answer]\<rparr>)
              else st\<lparr>pdf_searched := True, web_searched := False,
                      final_answer := [], pdf_found_content := False,
                      messages := messages st @
                        [AIMessage ''Information not found in PDF, searching web...'']\<rparr>))"

definition web_prompt :: "string \<Rightarrow> string \<Rightarrow> string" where
  "web_prompt q web_result =
     [NL] @ ''The user asked: '' @ [DQ] @ q @ [DQ] @ [NL, NL]
     @ ''The information was not found in the PDF document, so I searched the web and found the following:''
     @ [NL, NL] @ web_result @ [NL, NL]
     @ ''Provide a clear and comprehensive answer based solely on these web search results. If the web results are not relevant or insufficient, state clearly: ''
     @ [DQ] @ ''The web search results do not contain enough information to answer the query. ''"

definition web_search_node :: "env \<Rightarrow> world \<Rightarrow> state \<Rightarrow> state \<times> world" where
  "web_search_node e w st =
     (case tavily_search_tool e w (query st) of
        (web_result, w1) \<Rightarrow>
          (let answer =
                 (case llm_invoke e [SystemMessage SYSTEM_PROMPT,
                                     HumanMessage (web_prompt (query st) web_result)] of
                    Inr response \<Rightarrow> response
                  | Inl err \<Rightarrow> ''Based on web search: '' @ web_result)
           in (st\<lparr>web_searched := True, final_answer := answer,
                   messages := messages st @ [AIMessage answer]\<rparr>, w1)))"

definition END :: string where
  "END = ''__end__''"

definition route_after_pdf :: "state \<Rightarrow> string" where
  "route_after_pdf st = (if pdf_found_content st then END else ''web_search'')"

text \<open>
  The compiled workflow of \<open>create_workflow\<close>, run by \<open>graph.invoke\<close>: the entry edge
  to \<open>pdf_search\<close>, the conditional edge of \<open>route_after_pdf\<close>, and the edge from
  \<open>web_search\<close> to the end. The workflow holds the index object of the document
  processor, so it searches the index as it is when the query runs.
\<close>

definition graph_invoke :: "env \<Rightarrow> world \<Rightarrow> state \<Rightarrow> string + (state \<times> world)" where
  "graph_invoke e w st =
     (case graph_error e of
        Some err \<Rightarrow> Inl err
      | None \<Rightarrow>
          (let st1 = pdf_search_node e st (vector_store w)
           in if route_after_pdf st1 = END then Inr (st1, w)
              else Inr (web_search_node e w st1)))"

definition update_workflow :: "world \<Rightarrow> world" where
  "update_workflow w = (if vector_store w \<noteq> None then w\<lparr>graph := True\<rparr> else w)"


text \<open>The local values of \<open>RAGPipeline.query\<close>, in the order it computes them.\<close>

definition history_context :: "(string \<times> string \<times> nat) list \<Rightarrow> string" where
  "history_context history =
     (if history \<noteq> []
      then join [NL] [capitalize (fst msg) @ '': '' @ fst (snd msg). msg \<leftarrow> history,
                       fst msg \<in> set [''user'', ''assistant''] \<and> strip (fst (snd msg)) \<noteq> []]
      else [])"

definition history_relevant :: "string \<Rightarrow> bool" where
  "history_relevant user_query =
     list_ex (\<lambda>keyword. contains (lower user_query) keyword)
       [''earlier'', ''previous'', ''before'', ''last'', ''what did you say'']"

definition history_prompt :: "string \<Rightarrow> string \<Rightarrow> string" where
  "history_prompt hc user_query =
     [NL] @ ''Conversation History:'' @ [NL] @ hc @ [NL, NL]
     @ ''Current Query: '' @ user_query @ [NL, NL]
     @ ''Please answer the query, taking into account the conversation history if relevant. '' @ [NL]
     @ ''If the query refers to prior messages, use the history to provide a context-aware response. '' @ [NL]
     @ ''Otherwise, proceed with the standard retrieval process using the PDF or web search tools.'' @ [NL]"

definition prompt_prefix :: "(string \<times> string \<times> nat) list \<Rightarrow> string \<Rightarrow> string" where
  "prompt_prefix history user_query =
     (if history_relevant user_query \<and> history_context history \<noteq> []
      then history_prompt (history_context history) user_query
      else ''Current Query: '' @ user_query)"

definition initial_state :: "(string \<times> string \<times> nat) list \<Rightarrow> string \<Rightarrow> string \<Rightarrow> state" where
  "initial_state history user_query tid =
     \<lparr>messages = [HumanMessage (prompt_prefix history user_query)],
      query = user_query, thread_id = tid,
      pdf_searched = False, web_searched = False, final_answer = [],
      pdf_found_content = False\<rparr>"

text \<open>
  The two \<open>save_message\<close> calls that end every path of \<open>RAGPipeline.query\<close>: the
  query with role \<open>user\<close>, then the answer with role \<open>assistant\<close>; the answer is
  returned.
\<close>

definition save_exchange :: "world \<Rightarrow> string \<Rightarrow> string \<Rightarrow> string \<Rightarrow> string \<times> world" where
  "save_exchange w tid user_query answer =
     (let w1 = snd (save_message w tid user_query ''user'' None);
          w2 = snd (save_message w1 tid answer ''assistant'' None)
      in (answer, w2))"

definition RAGPipeline_query :: "env \<Rightarrow> world \<Rightarrow> string \<Rightarrow> string \<Rightarrow> string \<times> world" where
  "RAGPipeline_query e w user_query tid =
     (case load_history w tid 10 of
        (history, w1) \<Rightarrow>
          if vector_store w1 = None
          then save_exchange w1 tid user_query
                 ''Error: No PDF documents uploaded yet. Please upload a PDF first.''
          else (let w2 = (if \<not> graph w1 then update_workflow w1 else w1)
                in if \<not> graph w2
                   then save_exchange w2 tid user_query
                          ''Error: Failed to initialize workflow due to missing vector store.''
                   else (let st0 = initial_state history user_query tid;
                             wi = w2\<lparr>graph_inputs := graph_inputs w2 @ [st0]\<rparr>
                         in (case graph_invoke e wi st0 of
                               Inl err \<Rightarrow>
                                 save_exchange wi tid user_query
                                   (''Sorry, I encountered an error while processing your query: '' @ err)
                             | Inr (result, w3) \<Rightarrow>
                                 (let answer = final_answer result;
                                      answer' = (if answer = [] \<or> strip answer = []
                                                 then ''I apologize, but I couldn't find relevant information to answer your question.''
                                                 else answer)
                                  in save_exchange w3 tid user_query answer')))))"


section \<open>Document ingestion (document\_storage.py)\<close>

definition save_document_metadata ::
  "world \<Rightarrow> string \<Rightarrow> string \<Rightarrow> nat \<Rightarrow> string \<Rightarrow> nat \<Rightarrow> bool \<times> world" where
  "save_document_metadata w sid fname fsize chash n_chunks =
     (case store_op w of
        (False, w1) \<Rightarrow> (False, w1)
      | (True, w1) \<Rightarrow>
          (case utcnow w1 of
             (now, w2) \<Rightarrow>
               (True, w2\<lparr>documents := documents w2 @
                  [\<lparr>doc_session_id = sid, filename = fname, file_size = fsize,
                    content_hash = chash, chunk_count = n_chunks,
                    upload_timestamp = now, status = ''processed''\<rparr>]\<rparr>)))"

text \<open>
  \<open>process_pdf_file\<close>: every exception of the body is caught by its handler, which
  returns \<open>(False, "Error processing PDF: ...", 0)\<close>; the state keeps what was written
  before the exception.
\<close>

definition process_pdf_file ::
  "env \<Rightarrow> world \<Rightarrow> string \<Rightarrow> string \<Rightarrow> string \<Rightarrow> (bool \<times> string \<times> nat) \<times> world" where
  "process_pdf_file e w file_path fname sid =
     (if \<not> endswith (lower file_path) ''.pdf''
      then ((False, ''Only PDF files are supported'', 0), w)
      else (case load_pdf e file_path of
              Inl err \<Rightarrow> ((False, ''Error processing PDF: '' @ err, 0), w)
            | Inr pages \<Rightarrow>
                if pages = [] then ((False, ''Failed to load PDF document'', 0), w)
                else (let chunks = split_documents e 1000 100 pages
                      in if chunks = [] then ((False, ''Failed to create document chunks'', 0), w)
                         else (case read_file e file_path of
                                 Inl err \<Rightarrow> ((False, ''Error processing PDF: '' @ err, 0), w)
                               | Inr raw \<Rightarrow>
                                   (let chash = sha256_hexdigest e raw
                                    in (case embed_error e chunks of
                                          Some err \<Rightarrow> ((False, ''Error processing PDF: '' @ err, 0), w)
                                        | None \<Rightarrow>
                                            (let w1 = w\<lparr>vector_store :=
                                                       (case vector_store w of
                                                          None \<Rightarrow> Some chunks
                                                        | Some vs \<Rightarrow> Some (vs @ chunks))\<rparr>
                                             in (case getsize e file_path of
                                                   Inl err \<Rightarrow>
                                                     ((False, ''Error processing PDF: '' @ err, 0), w1)
                                                 | Inr fsize \<Rightarrow>
                                                     (case save_document_metadata w1 sid fname fsize
                                                             chash (length chunks) of
                                                        (True, w2) \<Rightarrow>
                                                          ((True, ''Processed '' @ fname @ '' with ''
                                                              @ str_nat (length chunks) @ '' chunks'',
                                                            length chunks), w2)
                                                      | (False, w2) \<Rightarrow>
                                                          ((False, ''Failed to save document metadata'', 0),
                                                           w2))))))))))"


section \<open>Notions of the specification\<close>

text \<open>
  The chunks of a result list that pass the relevance gate as the specification words
  it: computed similarity strictly above 0.4 and trimmed text not empty.
\<close>

definition retained :: "number_impl \<Rightarrow> (document \<times> real) list \<Rightarrow> (document \<times> real) list" where
  "retained n results =
     filter (\<lambda>r. (case similarity n (snd r) of Inl err \<Rightarrow> False
                                               | Inr s \<Rightarrow> exceeds s (threshold n))
                 \<and> strip (page_content (fst r)) \<noteq> []) results"


text \<open>
  The binary interchange formats of IEEE 754 (with at least three significand bits),
  and the largest finite float of a format.
\<close>

definition ieee_format :: "float_format \<Rightarrow> bool" where
  "ieee_format f = (3 \<le> precision f \<and> emin f = 1 - emax f \<and> int (precision f) \<le> emax f + 1)"

definition max_float :: "float_format \<Rightarrow> real" where
  "max_float f = (2 - 2 powr (1 - real (precision f))) * 2 powr of_int (emax f)"





text \<open>
  The turns of a session in ascending order of time, and the last \<open>n\<close> of them.
\<close>

definition session_turns :: "world \<Rightarrow> string \<Rightarrow> chat_turn list" where
  "session_turns w sid =
     sort_key turn_timestamp (filter (\<lambda>m. turn_session_id m = sid) (chat_history w))"

definition last_turns :: "world \<Rightarrow> string \<Rightarrow> nat \<Rightarrow> chat_turn list" where
  "last_turns w sid n = drop (length (session_turns w sid) - n) (session_turns w sid)"


section \<open>Concrete inputs\<close>

text \<open>Inputs on which the theorems below are run.\<close>

definition chunk :: "string \<Rightarrow> document" where
  "chunk t = \<lparr>page_content = t, doc_metadata = []\<rparr>"

text \<open>
  An environment whose index query returns \<open>rs\<close> as Python floats, whose language
  model answers \<open>answer\<close>, and whose web search returns no list.
\<close>

definition fixed_search :: "(document \<times> real) list \<Rightarrow> env" where
  "fixed_search rs = \<lparr>similarity_search_with_score = (\<lambda>vs q k. Inr rs),
      llm_invoke = (\<lambda>ms. Inr ''answer''),
      tavily_invoke = (\<lambda>n d q. Inr NotAList),
      graph_error = None, load_pdf = (\<lambda>p. Inr []), split_documents = (\<lambda>n m ps. ps),
      read_file = (\<lambda>p. Inr []), sha256_hexdigest = (\<lambda>b. []), embed_error = (\<lambda>c. None),
      getsize = (\<lambda>p. Inr 0), numbers = python_float\<rparr>"


text \<open>
  The float just below \<open>1.5\<close> (\<open>1.4999999999999998\<close>), and result lists: one around the
  gate, one with the most similar chunk last, and one by ascending distance.
\<close>

definition just_below :: real where
  "just_below = 3 / 2 - 1 / 2 ^ 52"

definition gate_results :: "(document \<times> real) list" where
  "gate_results = [(chunk '' A '', 0), (chunk ''B'', 3 / 2), (chunk ''C'', just_below),
     (chunk '' '', 0), (chunk ''D'', 1), (chunk ''E'', 3)]"








text \<open>A state with an empty store, no index and no workflow.\<close>

definition empty_world :: world where
  "empty_world = \<lparr>sessions = [], chat_history = [], documents = [], store_faults = [],
     clock = 0, vector_store = None, graph = False, web_queries = [],
     graph_inputs = []\<rparr>"


text \<open>
  A state whose index holds one chunk and whose workflow is compiled, and an environment
  whose index query raises.
\<close>

definition indexed_world :: world where
  "indexed_world = empty_world\<lparr>vector_store := Some [chunk ''A''], graph := True\<rparr>"

definition failing_search :: env where
  "failing_search = (fixed_search [])\<lparr>similarity_search_with_score :=
      (\<lambda>vs q k. Inl ''index unreadable'')\<rparr>"


text \<open>
  An environment for ingestion: the loader yields one page, the splitter keeps the pages
  as chunks, every file has the same eight bytes, and a stand-in hash.
\<close>

definition ingest_env :: env where
  "ingest_env = (fixed_search [])\<lparr>load_pdf := (\<lambda>p. Inr [chunk ''page one'']),
      read_file := (\<lambda>p. Inr ''%PDF-1.4''), sha256_hexdigest := (\<lambda>b. ''sha:'' @ b),
      getsize := (\<lambda>p. Inr 8)\<rparr>"


text \<open>
  A state with an index whose session \<open>s\<close> holds eleven turns, written at the times
  1 to 11.
\<close>

definition turn_at :: "string \<Rightarrow> string \<Rightarrow> nat \<Rightarrow> chat_turn" where
  "turn_at role text t = \<lparr>turn_session_id = ''s'', turn_content = text, turn_role = role,
     turn_timestamp = t, turn_metadata = []\<rparr>"

definition world11 :: world where
  "world11 = indexed_world\<lparr>chat_history :=
     [turn_at ''user'' ''m1'' 1, turn_at ''assistant'' ''m2'' 2, turn_at ''user'' ''m3'' 3,
      turn_at ''assistant'' ''m4'' 4, turn_at ''user'' ''m5'' 5, turn_at ''assistant'' ''m6'' 6,
      turn_at ''user'' ''m7'' 7, turn_at ''assistant'' ''m8'' 8, turn_at ''user'' ''m9'' 9,
      turn_at ''assistant'' ''m10'' 10, turn_at ''user'' ''m11'' 11]\<rparr>"


section \<open>Verification\<close>

subsection \<open>Floating-point rounding\<close>

lemma rne_of_int [simp]: "rne (of_int k) = k"
  by (simp add: rne_def)

lemma rne_power2 [simp]: "rne (2 ^ n) = 2 ^ n"
  using rne_of_int [of "2 ^ n"] by simp

lemma rne_bounds: "\<lfloor>y\<rfloor> \<le> rne y \<and> rne y \<le> \<lfloor>y\<rfloor> + 1"
  by (simp add: rne_def Let_def)

lemma rne_error: "\<bar>of_int (rne y) - y\<bar> \<le> 1 / 2"
  unfolding rne_def Let_def by (auto simp: abs_if) linarith+

lemma rne_mono: "x \<le> y \<Longrightarrow> rne x \<le> rne y"
proof -
  assume xy: "x \<le> y"
  then have f: "\<lfloor>x\<rfloor> \<le> \<lfloor>y\<rfloor>" by (rule floor_mono)
  show ?thesis
  proof (cases "\<lfloor>x\<rfloor> = \<lfloor>y\<rfloor>")
    case True
    with xy show ?thesis by (auto simp: rne_def Let_def)
  next
    case False
    with f have "\<lfloor>x\<rfloor> + 1 \<le> \<lfloor>y\<rfloor>" by simp
    with rne_bounds [of x] rne_bounds [of y] show ?thesis by linarith
  qed
qed

lemma binade_eqI:
  "2 powr of_int e \<le> \<bar>x\<bar> \<Longrightarrow> \<bar>x\<bar> < 2 powr of_int (e + 1) \<Longrightarrow> binade x = e"
proof -
  assume a: "2 powr of_int e \<le> \<bar>x\<bar>" and b: "\<bar>x\<bar> < 2 powr of_int (e + 1)"
  have "0 < (2::real) powr of_int e" by simp
  with a have p: "0 < \<bar>x\<bar>" by linarith
  show ?thesis unfolding binade_def
    using floor_log_eq_powr_iff [of "\<bar>x\<bar>" 2 e] p a b by simp
qed

lemma binade_bounds:
  "x \<noteq> 0 \<Longrightarrow> 2 powr of_int (binade x) \<le> \<bar>x\<bar> \<and> \<bar>x\<bar> < 2 powr of_int (binade x + 1)"
  unfolding binade_def
  using floor_log_eq_powr_iff [of "\<bar>x\<bar>" 2 "\<lfloor>log 2 \<bar>x\<bar>\<rfloor>"] by simp

lemma binade_mono: "0 < x \<Longrightarrow> x \<le> y \<Longrightarrow> binade x \<le> binade y"
  unfolding binade_def by (intro floor_mono) simp

lemma ulp_pos [simp]: "0 < ulp f x"
  by (simp add: ulp_def)

lemma ulp_nonzero [simp]: "ulp f x \<noteq> 0"
  by (simp add: ulp_def)

lemma fl_error: "\<bar>fl f x - x\<bar> \<le> ulp f x / 2"
proof (cases "x = 0")
  case True
  then show ?thesis by (simp add: fl_def order_less_imp_le)
next
  case False
  let ?u = "ulp f x"
  have "fl f x - x = ?u * (of_int (rne (x / ?u)) - x / ?u)"
    using False by (simp add: fl_def algebra_simps)
  then have "\<bar>fl f x - x\<bar> = ?u * \<bar>of_int (rne (x / ?u)) - x / ?u\<bar>"
    by (simp add: abs_mult abs_of_pos)
  also have "\<dots> \<le> ?u * (1 / 2)"
    by (intro mult_left_mono rne_error) (simp add: order_less_imp_le)
  finally show ?thesis by simp
qed

lemma fl_representable:
  assumes u: "ulp f x = u" and x: "x = u * of_int k"
  shows "fl f x = x"
proof (cases "x = 0")
  case True
  then show ?thesis by (simp add: fl_def)
next
  case False
  have "0 < u" using u ulp_pos [of f x] by simp
  then have "x / u = of_int k" using x by (simp add: field_simps)
  then show ?thesis using False u x by (simp add: fl_def)
qed

lemma pow2_mono: "(a::int) \<le> b \<Longrightarrow> (2::real) powr of_int a \<le> 2 powr of_int b"
  by (rule powr_mono) simp_all

lemma expo_mono:
  "0 < x \<Longrightarrow> x \<le> y \<Longrightarrow> max (binade x) (emin f) \<le> max (binade y) (emin f)"
  using binade_mono [of x y] by simp

lemma fl_mono:
  assumes x: "0 < x" and xy: "x \<le> y" and p: "1 \<le> precision f"
  shows "fl f x \<le> fl f y"
proof -
  let ?p = "real (precision f)"
  define ex where "ex = max (binade x) (emin f)"
  define ey where "ey = max (binade y) (emin f)"
  have y: "0 < y" using x xy by simp
  have ux: "ulp f x = 2 powr (of_int ex - ?p + 1)" by (simp add: ulp_def ex_def)
  have uy: "ulp f y = 2 powr (of_int ey - ?p + 1)" by (simp add: ulp_def ey_def)
  have flx: "fl f x = ulp f x * of_int (rne (x / ulp f x))" using x by (simp add: fl_def)
  have fly: "fl f y = ulp f y * of_int (rne (y / ulp f y))" using y by (simp add: fl_def)
  have le: "ex \<le> ey" unfolding ex_def ey_def using x xy by (rule expo_mono)
  show ?thesis
  proof (cases "ex = ey")
    case True
    then have u: "ulp f x = ulp f y" by (simp add: ux uy)
    have "x / ulp f y \<le> y / ulp f y"
      by (rule divide_right_mono [OF xy]) (simp add: order_less_imp_le)
    then have "rne (x / ulp f y) \<le> rne (y / ulp f y)" by (rule rne_mono)
    then show ?thesis unfolding flx fly u by (simp add: mult_left_mono order_less_imp_le)
  next
    case False
    with le have lt: "ex + 1 \<le> ey" by linarith
    have "emin f \<le> ex" by (simp add: ex_def)
    with lt have "ey \<noteq> emin f" by linarith
    then have ey: "ey = binade y" by (simp add: ey_def max_def split: if_splits)
    from binade_bounds [of y] y ey have ylow: "2 powr of_int ey \<le> y" by simp
    have bx: "binade x + 1 \<le> ex + 1" by (simp add: ex_def)
    from binade_bounds [of x] x have "x < 2 powr of_int (binade x + 1)" by simp
    also have "\<dots> \<le> 2 powr of_int (ex + 1)"
      by (rule pow2_mono) (rule bx)
    finally have xup: "x < 2 powr of_int (ex + 1)" .
    have pw: "2 powr ?p = 2 ^ precision f" by (simp add: powr_realpow)
    have sx: "ulp f x * 2 ^ precision f = 2 powr of_int (ex + 1)"
      unfolding ux pw [symmetric] by (simp add: powr_add [symmetric])
    have kx: "x / ulp f x \<le> 2 ^ precision f"
    proof -
      from xup sx have "x < ulp f x * 2 ^ precision f" by simp
      then show ?thesis by (simp add: field_simps)
    qed
    have "rne (x / ulp f x) \<le> rne (2 ^ precision f)" using kx by (rule rne_mono)
    then have "rne (x / ulp f x) \<le> 2 ^ precision f" by simp
    then have "real_of_int (rne (x / ulp f x)) \<le> real_of_int (2 ^ precision f)"
      by (simp only: of_int_le_iff)
    then have "of_int (rne (x / ulp f x)) \<le> (2::real) ^ precision f" by simp
    then have "fl f x \<le> ulp f x * 2 ^ precision f"
      unfolding flx by (simp add: mult_left_mono order_less_imp_le)
    also have "\<dots> = 2 powr of_int (ex + 1)" by (rule sx)
    also have "\<dots> \<le> 2 powr of_int ey"
      by (rule pow2_mono) (rule lt)
    finally have a: "fl f x \<le> 2 powr of_int ey" .
    obtain m where m: "precision f = Suc m" using p by (cases "precision f") auto
    have pm: "2 powr (?p - 1) = 2 ^ m" using m by (simp add: powr_realpow)
    have sy: "ulp f y * 2 ^ m = 2 powr of_int ey"
      unfolding uy pm [symmetric] by (simp add: powr_add [symmetric])
    have ky: "2 ^ m \<le> y / ulp f y"
    proof -
      from ylow sy have "ulp f y * 2 ^ m \<le> y" by simp
      then show ?thesis by (simp add: field_simps)
    qed
    have "rne (2 ^ m) \<le> rne (y / ulp f y)" using ky by (rule rne_mono)
    then have "2 ^ m \<le> rne (y / ulp f y)" by simp
    then have "real_of_int (2 ^ m) \<le> real_of_int (rne (y / ulp f y))"
      by (simp only: of_int_le_iff)
    then have "(2::real) ^ m \<le> of_int (rne (y / ulp f y))" by simp
    then have "ulp f y * 2 ^ m \<le> fl f y"
      unfolding fly by (simp add: mult_left_mono order_less_imp_le)
    with sy have b: "2 powr of_int ey \<le> fl f y" by simp
    from a b show ?thesis by simp
  qed
qed

lemma binade_pow2 [simp]: "binade (2 powr of_int e) = e"
  by (rule binade_eqI) simp_all

lemma fl_pow2:
  assumes e: "emin f - int (precision f) + 1 \<le> e" and p: "1 \<le> precision f"
  shows "fl f (2 powr of_int e) = 2 powr of_int e"
proof -
  define ex where "ex = max e (emin f)"
  define k where "k = nat (e - ex + int (precision f) - 1)"
  have k0: "0 \<le> e - ex + int (precision f) - 1"
    using e p by (auto simp: ex_def max_def)
  have u: "ulp f (2 powr of_int e) = 2 powr (of_int ex - real (precision f) + 1)"
    by (simp add: ulp_def ex_def)
  have "real k = of_int (e - ex + int (precision f) - 1)"
    unfolding k_def using k0 by (simp only: of_nat_nat)
  then have rk: "real k = of_int e - of_int ex + real (precision f) - 1" by simp
  have "(2::real) powr (of_int ex - real (precision f) + 1) * 2 ^ k
          = 2 powr (of_int ex - real (precision f) + 1) * 2 powr real k"
    by (simp add: powr_realpow)
  also have "\<dots> = 2 powr of_int e"
    unfolding powr_add [symmetric] rk by simp
  finally have x: "2 powr of_int e
      = 2 powr (of_int ex - real (precision f) + 1) * of_int (2 ^ k)" by simp
  show ?thesis by (rule fl_representable [OF u x])
qed

lemma fl_one: "ieee_format f \<Longrightarrow> fl f 1 = 1"
  using fl_pow2 [of f 0] by (simp add: ieee_format_def)

lemma rne_down: "of_int k \<le> y \<Longrightarrow> y < of_int k + 1 / 2 \<Longrightarrow> rne y = k"
proof -
  assume a: "of_int k \<le> y" and b: "y < of_int k + 1 / 2"
  then have "\<lfloor>y\<rfloor> = k" by (intro floor_unique) simp_all
  with b show ?thesis by (simp add: rne_def Let_def)
qed

lemma rne_tie_odd: "y = of_int k + 1 / 2 \<Longrightarrow> odd k \<Longrightarrow> rne y = k + 1"
proof -
  assume y: "y = of_int k + 1 / 2" and o: "odd k"
  then have "\<lfloor>y\<rfloor> = k" by (intro floor_unique) simp_all
  with y o show ?thesis by (simp add: rne_def Let_def)
qed

lemma binade_one [simp]: "binade 1 = 0"
  using binade_pow2 [of 0] by simp

lemma ieee_emin: "ieee_format f \<Longrightarrow> emin f \<le> 0"
  by (simp add: ieee_format_def)

lemma sum_rounded_ge_one:
  assumes f: "ieee_format f" and d0: "0 \<le> d"
  shows "1 \<le> fl f (1 + d)"
proof -
  have "fl f 1 \<le> fl f (1 + d)"
    using f d0 by (intro fl_mono) (simp_all add: ieee_format_def)
  then show ?thesis by (simp add: fl_one [OF f])
qed

lemma quotient_mono:
  assumes f: "ieee_format f" and d0: "0 \<le> d" and dd: "d \<le> d'"
  shows "fl f (1 / fl f (1 + d')) \<le> fl f (1 / fl f (1 + d))"
proof -
  have p1: "1 \<le> precision f" using f by (simp add: ieee_format_def)
  have a: "1 \<le> fl f (1 + d)" using f d0 by (rule sum_rounded_ge_one)
  have b: "fl f (1 + d) \<le> fl f (1 + d')" using d0 dd by (intro fl_mono p1) simp_all
  from a b have "0 < 1 / fl f (1 + d')" by simp
  moreover from a b have "1 / fl f (1 + d') \<le> 1 / fl f (1 + d)" by (simp add: frac_le)
  ultimately show ?thesis by (intro fl_mono p1)
qed

lemma quotient_le_one:
  assumes f: "ieee_format f" and d0: "0 \<le> d"
  shows "fl f (1 / fl f (1 + d)) \<le> 1"
proof -
  have p1: "1 \<le> precision f" using f by (simp add: ieee_format_def)
  have "1 \<le> fl f (1 + d)" using f d0 by (rule sum_rounded_ge_one)
  then have "0 < 1 / fl f (1 + d)" "1 / fl f (1 + d) \<le> 1" by simp_all
  then have "fl f (1 / fl f (1 + d)) \<le> fl f 1" by (intro fl_mono p1)
  then show ?thesis by (simp add: fl_one [OF f])
qed

lemma quotient_pos:
  assumes f: "ieee_format f" and d0: "0 \<le> d" and dm: "d \<le> max_float f"
  shows "0 < fl f (1 / fl f (1 + d))"
proof -
  have p1: "1 \<le> precision f" and p3: "3 \<le> precision f"
    and em: "emin f = 1 - emax f" and pe: "int (precision f) \<le> emax f + 1"
    using f by (simp_all add: ieee_format_def)
  let ?M = "(2::real) powr of_int (emax f + 1)"
  let ?m = "(2::real) powr of_int (- emax f - 1)"
  have td: "1 \<le> fl f (1 + d)" using f d0 by (rule sum_rounded_ge_one)
  have "1 \<le> (2::real) powr (of_int (emax f) + 1 - real (precision f))"
    using pe by (intro ge_one_powr_ge_zero) simp_all
  moreover have "max_float f = ?M - 2 powr (of_int (emax f) + 1 - real (precision f))"
    by (simp add: max_float_def algebra_simps powr_add [symmetric])
       (simp add: powr_add)
  ultimately have "1 + d \<le> ?M" using dm by linarith
  moreover have "0 < 1 + d" using d0 by simp
  ultimately have "fl f (1 + d) \<le> fl f ?M" by (intro fl_mono p1)
  also have "fl f ?M = ?M" using p1 pe em by (intro fl_pow2) simp_all
  finally have tM: "fl f (1 + d) \<le> ?M" .
  have Mm: "1 / ?M = ?m" by (simp add: powr_minus [symmetric] divide_inverse)
  from td tM have "1 / ?M \<le> 1 / fl f (1 + d)" by (simp add: frac_le)
  then have "?m \<le> 1 / fl f (1 + d)" by (simp only: Mm)
  moreover have "0 < ?m" by simp
  ultimately have "fl f ?m \<le> fl f (1 / fl f (1 + d))" by (intro fl_mono p1)
  moreover have "fl f ?m = ?m" using p3 em by (intro fl_pow2) simp_all
  ultimately show ?thesis by (simp add: less_le_trans [of 0 ?m])
qed

lemma quotient_accuracy:
  assumes f: "ieee_format f" and d0: "0 \<le> d"
  shows "\<bar>fl f (1 / fl f (1 + d)) - 1 / (1 + d)\<bar> \<le> 2 powr (1 - real (precision f))"
proof -
  define x where "x = 1 + d"
  define t where "t = fl f x"
  define y where "y = 1 / t"
  define c where "c = 2 powr (1 - real (precision f))"
  have x1: "1 \<le> x" using d0 by (simp add: x_def)
  have t1: "1 \<le> t" unfolding t_def x_def using f d0 by (rule sum_rounded_ge_one)
  have e0: "emin f \<le> 0" using f by (rule ieee_emin)
  have c0: "0 < c" by (simp add: c_def)
  \<comment> \<open>the sum\<close>
  have bx: "0 \<le> binade x" using binade_mono [of 1 x] x1 by simp
  with e0 have "max (binade x) (emin f) = binade x" by simp
  then have "ulp f x = 2 powr (of_int (binade x) + (1 - real (precision f)))"
    by (simp add: ulp_def algebra_simps)
  then have "ulp f x = 2 powr of_int (binade x) * c"
    by (simp only: powr_add c_def)
  moreover have "2 powr of_int (binade x) \<le> x"
    using binade_bounds [of x] x1 by simp
  ultimately have ux: "ulp f x \<le> x * c"
    using c0 by simp
  have "\<bar>t - x\<bar> \<le> ulp f x / 2" unfolding t_def by (rule fl_error)
  with ux have tx: "\<bar>t - x\<bar> \<le> x * c / 2" by linarith
  have "1 / t - 1 / x = (x - t) / (t * x)"
    using x1 t1 by (simp add: field_simps)
  then have "\<bar>1 / t - 1 / x\<bar> = \<bar>t - x\<bar> / (t * x)"
    using x1 t1 by (simp add: abs_minus_commute)
  also have "\<dots> \<le> (x * c / 2) / (t * x)"
    using tx x1 t1 by (intro divide_right_mono) simp_all
  also have "\<dots> = c / (2 * t)"
    using x1 by simp
  also have "\<dots> \<le> c / 2"
    using t1 c0 by (simp add: field_simps)
  finally have q: "\<bar>y - 1 / x\<bar> \<le> c / 2" by (simp add: y_def)
  \<comment> \<open>the quotient\<close>
  have y0: "0 < y" and y1: "y \<le> 1" using t1 by (simp_all add: y_def)
  have "binade y \<le> 0" using binade_mono [of y 1] y0 y1 by simp
  then have "max (binade y) (emin f) \<le> 0" using e0 by simp
  then have "ulp f y \<le> c"
    unfolding ulp_def c_def by (intro powr_mono) simp_all
  moreover have "\<bar>fl f y - y\<bar> \<le> ulp f y / 2" by (rule fl_error)
  ultimately have r: "\<bar>fl f y - y\<bar> \<le> c / 2" by linarith
  from q r have "\<bar>fl f y - 1 / x\<bar> \<le> c" by linarith
  then show ?thesis by (simp only: y_def t_def x_def c_def)
qed

lemma ieee_binary64: "ieee_format binary64"
  by (simp add: ieee_format_def binary64_def)

lemma ulp_eval:
  assumes "2 powr of_int e \<le> \<bar>x\<bar>" and "\<bar>x\<bar> < 2 powr of_int (e + 1)" and "emin f \<le> e"
  shows "ulp f x = 2 powr (of_int e - real (precision f) + 1)"
  using binade_eqI [OF assms(1) assms(2)] assms(3) by (simp add: ulp_def max_def)

lemma pow2_b64: "fl binary64 1 = 1" "fl binary64 2 = 2" "fl binary64 (1 / 2) = 1 / 2"
  "fl binary64 4 = 4" "fl binary64 (1 / 4) = 1 / 4"
  using fl_pow2 [of binary64 0] fl_pow2 [of binary64 1] fl_pow2 [of binary64 "- 1"]
    fl_pow2 [of binary64 2] fl_pow2 [of binary64 "- 2"]
  by (simp_all add: binary64_def powr_neg_numeral)

lemma ulp_b64_5_2: "ulp binary64 (5 / 2) = 1 / 2 ^ 51"
  using ulp_eval [of 1 "5 / 2" binary64] by (simp add: binary64_def powr_neg_numeral)

lemma fl_b64_5_2: "fl binary64 (5 / 2) = 5 / 2"
  by (rule fl_representable [OF ulp_b64_5_2, of "5 * 2 ^ 50"]) simp

lemma ulp_b64_tie: "ulp binary64 (5 / 2 - 1 / 2 ^ 52) = 1 / 2 ^ 51"
  using ulp_eval [of 1 "5 / 2 - 1 / 2 ^ 52" binary64] by (simp add: binary64_def powr_neg_numeral)

lemma fl_b64_tie: "fl binary64 (5 / 2 - 1 / 2 ^ 52) = 5 / 2"
proof -
  define x :: real where "x = 5 / 2 - 1 / 2 ^ 52"
  have u: "ulp binary64 x = 1 / 2 ^ 51"
    unfolding x_def by (rule ulp_b64_tie)
  have "rne (x / (1 / 2 ^ 51)) = 5 * 2 ^ 50 - 1 + 1"
    unfolding x_def by (rule rne_tie_odd) simp_all
  then have r: "rne (x / (1 / 2 ^ 51)) = 5 * 2 ^ 50"
    by simp
  have "x \<noteq> 0"
    by (simp add: x_def)
  then have "fl binary64 x = 5 / 2"
    unfolding fl_def u r by simp
  then show ?thesis
    by (simp only: x_def)
qed

lemma ulp_b64_tiny: "ulp binary64 (1 + 1 / 2 ^ 54) = 1 / 2 ^ 52"
  using ulp_eval [of 0 "1 + 1 / 2 ^ 54" binary64] by (simp add: binary64_def powr_neg_numeral)

lemma fl_b64_tiny: "fl binary64 (1 + 1 / 2 ^ 54) = 1"
proof -
  define x :: real where "x = 1 + 1 / 2 ^ 54"
  have u: "ulp binary64 x = 1 / 2 ^ 52"
    unfolding x_def by (rule ulp_b64_tiny)
  have r: "rne (x / (1 / 2 ^ 52)) = 2 ^ 52"
    unfolding x_def by (rule rne_down) simp_all
  have "x \<noteq> 0"
    by (simp add: x_def)
  then have "fl binary64 x = 1"
    unfolding fl_def u r by simp
  then show ?thesis
    by (simp only: x_def)
qed

lemma ulp_b64_2_5: "ulp binary64 (2 / 5) = 1 / 2 ^ 54"
  using ulp_eval [of "- 2" "2 / 5" binary64] by (simp add: binary64_def powr_neg_numeral)

lemma threshold_python: "\<bar>threshold python_float - 2 / 5\<bar> \<le> 1 / 2 ^ 55"
  using fl_error [of binary64 "2 / 5"]
  by (simp add: threshold_def python_float_def ulp_b64_2_5)

lemma similarity_python_0: "similarity python_float 0 = Inr (Finite 1)"
  by (simp add: similarity_def python_float_def pow2_b64)

lemma similarity_python_tiny: "similarity python_float (1 / 2 ^ 54) = Inr (Finite 1)"
proof -
  have "similarity python_float (1 / 2 ^ 54)
      = (let t = fl binary64 (1 + 1 / 2 ^ 54) in if t = 0 then Inl ''float division by zero''
         else Inr (Finite (fl binary64 (1 / t))))"
    by (simp only: similarity_def python_float_def number_impl.simps if_True)
  also have "\<dots> = Inr (Finite 1)"
    unfolding fl_b64_tiny by (simp add: pow2_b64)
  finally show ?thesis .
qed

lemma similarity_python_1: "similarity python_float 1 = Inr (Finite (1 / 2))"
  by (simp add: similarity_def python_float_def pow2_b64)

lemma similarity_python_3: "similarity python_float 3 = Inr (Finite (1 / 4))"
  by (simp add: similarity_def python_float_def pow2_b64)

lemma similarity_python_3_2: "similarity python_float (3 / 2) = Inr (Finite (threshold python_float))"
  by (simp add: similarity_def python_float_def fl_b64_5_2 threshold_def)

lemma similarity_python_below_3_2:
  "similarity python_float (3 / 2 - 1 / 2 ^ 52) = Inr (Finite (threshold python_float))"
proof -
  have "similarity python_float (3 / 2 - 1 / 2 ^ 52)
      = (let t = fl binary64 (5 / 2 - 1 / 2 ^ 52) in if t = 0 then Inl ''float division by zero''
         else Inr (Finite (fl binary64 (1 / t))))"
  proof -
    have "(1::real) + (3 / 2 - 1 / 2 ^ 52) = 5 / 2 - 1 / 2 ^ 52"
      by simp
    then show ?thesis
      by (simp only: similarity_def python_float_def number_impl.simps if_True)
  qed
  also have "\<dots> = Inr (Finite (threshold python_float))"
    unfolding fl_b64_tie by (simp add: threshold_def python_float_def)
  finally show ?thesis .
qed

lemma similarity_python_minus_1: "similarity python_float (- 1) = Inl ''float division by zero''"
  by (simp add: similarity_def python_float_def fl_def)


subsection \<open>Numbers of the fixtures\<close>

lemma max_float_ge_one: "ieee_format f \<Longrightarrow> 1 \<le> max_float f"
proof -
  assume f: "ieee_format f"
  then have e: "0 \<le> emax f" and p: "1 \<le> precision f" by (simp_all add: ieee_format_def)
  have "(2::real) powr (1 - real (precision f)) \<le> 2 powr 0"
    using p by (intro powr_mono) simp_all
  then have a: "1 \<le> 2 - (2::real) powr (1 - real (precision f))" by simp
  have b: "1 \<le> (2::real) powr of_int (emax f)"
    using e by (intro ge_one_powr_ge_zero) simp_all
  from a b have "1 * 1 \<le> (2 - (2::real) powr (1 - real (precision f))) * 2 powr of_int (emax f)"
    by (intro mult_mono) simp_all
  then show ?thesis by (simp add: max_float_def)
qed

lemma threshold_bounds: "1 / 4 < threshold python_float \<and> threshold python_float < 1 / 2"
proof -
  have "(1::real) / 2 ^ 55 < 1 / 10" by simp
  with threshold_python show ?thesis by linarith
qed

lemma threshold_compare:
  "threshold python_float * 2 < 1" "\<not> threshold python_float * 4 < 1"
  "threshold python_float < 1"
  using threshold_bounds by simp_all

lemma similarity_python_just_below:
  "similarity python_float just_below = Inr (Finite (threshold python_float))"
  unfolding just_below_def by (rule similarity_python_below_3_2)

lemma just_below_value: "just_below < 3 / 2 \<and> (2 / 5 :: real) < 1 / (1 + just_below)"
  by (simp add: just_below_def)

lemma ulp_b32_5_2: "ulp binary32 (5 / 2) = 1 / 2 ^ 22"
  using ulp_eval [of 1 "5 / 2" binary32] by (simp add: binary32_def powr_neg_numeral)

lemma fl_b32_5_2: "fl binary32 (5 / 2) = 5 / 2"
  by (rule fl_representable [OF ulp_b32_5_2, of "5 * 2 ^ 21"]) simp

lemma similarity_numpy_3_2: "similarity numpy_float32 (3 / 2) = Inr (Finite (threshold numpy_float32))"
  by (simp add: similarity_def numpy_float32_def fl_b32_5_2 threshold_def)

lemma similarity_numpy_minus_1: "similarity numpy_float32 (- 1) = Inr Infinity"
  by (simp add: similarity_def numpy_float32_def fl_def)

lemmas python_eval = similarity_python_0 similarity_python_1 similarity_python_3
  similarity_python_3_2 similarity_python_just_below similarity_python_minus_1
  threshold_compare


subsection \<open>Retrieval\<close>

lemma similarity_Inl: "similarity n d = Inl m \<Longrightarrow> m = ''float division by zero''"
  by (simp add: similarity_def Let_def split: if_splits)

lemma similarity_nonneg:
  assumes "ieee_format (score_format n)" and "0 \<le> d"
  shows "similarity n d = Inr (Finite (fl (score_format n) (1 / fl (score_format n) (1 + d))))"
proof -
  from assms have "1 \<le> fl (score_format n) (1 + d)" by (rule sum_rounded_ge_one)
  then have "fl (score_format n) (1 + d) \<noteq> 0" by simp
  then show ?thesis by (simp add: similarity_def Let_def)
qed

lemma relevant_content_retained:
  "\<forall>r\<in>set results. similarity n (snd r) \<noteq> Inl ''float division by zero'' \<Longrightarrow>
   relevant_content n results = Inr (map (\<lambda>r. strip (page_content (fst r))) (retained n results))"
proof (induction results)
  case Nil
  show ?case by (simp add: retained_def)
next
  case (Cons r rest)
  obtain doc score where r: "r = (doc, score)" by (cases r)
  from Cons.prems have nz: "similarity n score \<noteq> Inl ''float division by zero''"
    by (simp add: r)
  then obtain s where s: "similarity n score = Inr s"
    using similarity_Inl [of n score] by (cases "similarity n score") auto
  from Cons have ih: "relevant_content n rest =
      Inr (map (\<lambda>r. strip (page_content (fst r))) (retained n rest))" by simp
  show ?case using s ih by (simp add: r retained_def)
qed

lemma relevant_content_raises:
  "\<exists>r\<in>set results. similarity n (snd r) = Inl ''float division by zero'' \<Longrightarrow>
   relevant_content n results = Inl ''float division by zero''"
proof (induction results)
  case Nil
  then show ?case by simp
next
  case (Cons r rest)
  obtain doc score where r: "r = (doc, score)" by (cases r)
  show ?case
  proof (cases "similarity n score")
    case (Inl m)
    then have "m = ''float division by zero''" by (rule similarity_Inl)
    with Inl show ?thesis by (simp add: r)
  next
    case (Inr s)
    with Cons.prems have "\<exists>r\<in>set rest. similarity n (snd r) = Inl ''float division by zero''"
      by (simp add: r)
    then have "relevant_content n rest = Inl ''float division by zero''" by (rule Cons.IH)
    with Inr show ?thesis by (simp add: r)
  qed
qed


text \<open>
  C7, as stated, fails for the computed similarity: in Python's floats the distances
  \<open>0\<close> and \<open>1 / 2 ^ 54\<close> both give the similarity \<open>1\<close>, so the similarity is
  not strictly decreasing, and at the second distance it is not \<open>1 / (1 + d)\<close>.
\<close>

theorem similarity_not_strict_counterexample:
  "similarity python_float 0 = Inr (Finite 1)
   \<and> similarity python_float (1 / 2 ^ 54) = Inr (Finite 1)
   \<and> (0::real) < 1 / 2 ^ 54
   \<and> 1 / (1 + 1 / 2 ^ 54) \<noteq> (1::real)"
  using similarity_python_0 similarity_python_tiny by simp

text \<open>
  C7, amended. In every IEEE binary format of precision \<open>p\<close>, for a raw distance \<open>d\<close>
  from \<open>0\<close> to the largest float, the computation of the similarity raises nothing and
  gives a finite float \<open>s\<close> that differs from \<open>1 / (1 + d)\<close> by at most
  \<open>2 powr (1 - p)\<close>, lies in the half-open interval from \<open>0\<close> to \<open>1\<close>, and does not
  increase when the distance increases: at every larger distance the computed
  similarity is at most \<open>s\<close>.
\<close>

theorem similarity_range_monotone:
  assumes "ieee_format (score_format n)" and "0 \<le> d" and "d \<le> max_float (score_format n)"
  shows "\<exists>s. similarity n d = Inr (Finite s)
           \<and> \<bar>s - 1 / (1 + d)\<bar> \<le> 2 powr (1 - real (precision (score_format n)))
           \<and> 0 < s \<and> s \<le> 1
           \<and> (\<forall>d'. d \<le> d' \<longrightarrow> (\<exists>s'. similarity n d' = Inr (Finite s') \<and> s' \<le> s))"
proof -
  let ?f = "score_format n"
  let ?s = "\<lambda>d. fl ?f (1 / fl ?f (1 + d))"
  have sim: "similarity n d = Inr (Finite (?s d))"
    using assms(1,2) by (rule similarity_nonneg)
  have acc: "\<bar>?s d - 1 / (1 + d)\<bar> \<le> 2 powr (1 - real (precision ?f))"
    using assms(1,2) by (rule quotient_accuracy)
  have pos: "0 < ?s d" using assms by (rule quotient_pos)
  have le: "?s d \<le> 1" using assms(1,2) by (rule quotient_le_one)
  have mono: "\<exists>s'. similarity n d' = Inr (Finite s') \<and> s' \<le> ?s d" if "d \<le> d'" for d'
  proof -
    from that assms(2) have "0 \<le> d'" by simp
    with assms(1) have "similarity n d' = Inr (Finite (?s d'))" by (rule similarity_nonneg)
    moreover have "?s d' \<le> ?s d" using assms(1,2) that by (rule quotient_mono)
    ultimately show ?thesis by blast
  qed
  from sim acc pos le mono show ?thesis by blast
qed

theorem similarity_range_monotone_witness:
  "similarity python_float 1 = Inr (Finite (1 / 2))
   \<and> similarity python_float 3 = Inr (Finite (1 / 4))
   \<and> \<bar>1 / 2 - 1 / (1 + 1)\<bar> \<le> 2 powr (1 - real (precision binary64))
   \<and> (1 / 4 :: real) \<le> 1 / 2"
proof -
  have f: "ieee_format (score_format python_float)"
    by (simp add: python_float_def ieee_binary64)
  have m: "(1::real) \<le> max_float (score_format python_float)"
    using f by (rule max_float_ge_one)
  from similarity_range_monotone [OF f _ m] obtain s where
    s: "similarity python_float 1 = Inr (Finite s)"
    and a: "\<bar>s - 1 / (1 + 1)\<bar> \<le> 2 powr (1 - real (precision (score_format python_float)))"
    and d: "\<forall>d'. 1 \<le> d' \<longrightarrow> (\<exists>s'. similarity python_float d' = Inr (Finite s') \<and> s' \<le> s)"
    by auto
  from s have s2: "s = 1 / 2" by (simp add: similarity_python_1)
  from d have "\<exists>s'. similarity python_float 3 = Inr (Finite s') \<and> s' \<le> s" by simp
  then have q: "(1 / 4 :: real) \<le> s" by (auto simp: similarity_python_3)
  from a have a2: "\<bar>s - 1 / (1 + 1)\<bar> \<le> 2 powr (1 - real (precision binary64))"
    by (simp add: python_float_def)
  from s2 q a2 show ?thesis
    by (simp only: similarity_python_1 similarity_python_3 simp_thms)
qed

text \<open>
  C3. Similarity and \<open>0.4\<close> being the computed floats: the comprehension of
  \<open>pdf_retrieval_tool\<close> ends with the error when a division raises, and otherwise
  keeps the trimmed texts of exactly the chunks whose similarity is strictly above
  \<open>0.4\<close> and whose trimmed text is not empty, in the order of the results; a chunk whose
  similarity equals \<open>0.4\<close> is not retained.
\<close>

theorem retention_rule:
  "((\<exists>r\<in>set results. similarity n (snd r) = Inl ''float division by zero'')
      \<longrightarrow> relevant_content n results = Inl ''float division by zero'')
   \<and> ((\<forall>r\<in>set results. similarity n (snd r) \<noteq> Inl ''float division by zero'')
      \<longrightarrow> relevant_content n results
            = Inr (map (\<lambda>r. strip (page_content (fst r))) (retained n results)))
   \<and> (\<forall>r\<in>set results. r \<in> set (retained n results) \<longleftrightarrow>
          (\<exists>s. similarity n (snd r) = Inr s \<and> exceeds s (threshold n))
          \<and> strip (page_content (fst r)) \<noteq> [])
   \<and> (\<forall>r\<in>set results. similarity n (snd r) = Inr (Finite (threshold n))
          \<longrightarrow> r \<notin> set (retained n results))"
proof -
  have a: "(\<exists>r\<in>set results. similarity n (snd r) = Inl ''float division by zero'')
      \<longrightarrow> relevant_content n results = Inl ''float division by zero''"
    using relevant_content_raises by blast
  have b: "(\<forall>r\<in>set results. similarity n (snd r) \<noteq> Inl ''float division by zero'')
      \<longrightarrow> relevant_content n results
            = Inr (map (\<lambda>r. strip (page_content (fst r))) (retained n results))"
    using relevant_content_retained by blast
  have c: "\<forall>r\<in>set results. r \<in> set (retained n results) \<longleftrightarrow>
          (\<exists>s. similarity n (snd r) = Inr s \<and> exceeds s (threshold n))
          \<and> strip (page_content (fst r)) \<noteq> []"
    by (auto simp: retained_def split: sum.splits)
  have d: "\<forall>r\<in>set results. similarity n (snd r) = Inr (Finite (threshold n))
          \<longrightarrow> r \<notin> set (retained n results)"
    by (auto simp: retained_def)
  from a b c d show ?thesis by blast
qed

theorem retention_rule_witness:
  "relevant_content python_float gate_results = Inr [''A'', ''D'']
   \<and> retained python_float gate_results = [(chunk '' A '', 0), (chunk ''D'', 1)]
   \<and> similarity python_float (3 / 2) = Inr (Finite (threshold python_float))
   \<and> (chunk ''B'', 3 / 2) \<notin> set (retained python_float gate_results)
   \<and> similarity python_float just_below = Inr (Finite (threshold python_float))
   \<and> (chunk ''C'', just_below) \<notin> set (retained python_float gate_results)
   \<and> (2 / 5 :: real) < 1 / (1 + just_below)
   \<and> relevant_content python_float [(chunk ''A'', 0), (chunk ''B'', - 1)]
       = Inl ''float division by zero''
   \<and> relevant_content numpy_float32 [(chunk ''A'', - 1), (chunk ''B'', 3 / 2)] = Inr [''A'']"
proof -
  have ret: "retained python_float gate_results = [(chunk '' A '', 0), (chunk ''D'', 1)]"
    by (simp add: retained_def gate_results_def python_eval chunk_def strip_def py_isspace_def)
  have nr: "\<forall>r\<in>set gate_results. similarity python_float (snd r) \<noteq> Inl ''float division by zero''"
    by (simp add: gate_results_def python_eval)
  have inB: "(chunk ''B'', 3 / 2) \<in> set gate_results"
    and inC: "(chunk ''C'', just_below) \<in> set gate_results"
    by (simp_all add: gate_results_def)
  have ra: "\<exists>r\<in>set [(chunk ''A'', 0), (chunk ''B'', - 1)].
      similarity python_float (snd r) = Inl ''float division by zero''"
    by (simp add: python_eval)
  have nn: "\<forall>r\<in>set [(chunk ''A'', - 1), (chunk ''B'', 3 / 2)].
      similarity numpy_float32 (snd r) \<noteq> Inl ''float division by zero''"
    by (simp add: similarity_numpy_minus_1 similarity_numpy_3_2)
  have rn: "retained numpy_float32 [(chunk ''A'', - 1), (chunk ''B'', 3 / 2)] = [(chunk ''A'', - 1)]"
    by (simp add: retained_def similarity_numpy_minus_1 similarity_numpy_3_2 chunk_def
        strip_def py_isspace_def)
  from retention_rule [of gate_results python_float] nr
  have e1: "relevant_content python_float gate_results
      = Inr (map (\<lambda>r. strip (page_content (fst r))) (retained python_float gate_results))"
    by blast
  from retention_rule [of gate_results python_float] inB similarity_python_3_2
  have e2: "(chunk ''B'', 3 / 2) \<notin> set (retained python_float gate_results)"
    by (auto simp del: exceeds.simps)
  from retention_rule [of gate_results python_float] inC similarity_python_just_below
  have e3: "(chunk ''C'', just_below) \<notin> set (retained python_float gate_results)"
    by (auto simp del: exceeds.simps)
  from retention_rule [of "[(chunk ''A'', 0), (chunk ''B'', - 1)]" python_float] ra
  have e4: "relevant_content python_float [(chunk ''A'', 0), (chunk ''B'', - 1)]
       = Inl ''float division by zero''"
    by blast
  from retention_rule [of "[(chunk ''A'', - 1), (chunk ''B'', 3 / 2)]" numpy_float32] nn
  have e5: "relevant_content numpy_float32 [(chunk ''A'', - 1), (chunk ''B'', 3 / 2)]
      = Inr (map (\<lambda>r. strip (page_content (fst r)))
               (retained numpy_float32 [(chunk ''A'', - 1), (chunk ''B'', 3 / 2)]))"
    by blast
  have g1: "relevant_content python_float gate_results = Inr [''A'', ''D'']"
    unfolding e1 ret by (simp add: chunk_def strip_def py_isspace_def)
  have g5: "relevant_content numpy_float32 [(chunk ''A'', - 1), (chunk ''B'', 3 / 2)] = Inr [''A'']"
    unfolding e5 rn by (simp add: chunk_def strip_def py_isspace_def)
  have jb: "(2 / 5 :: real) < 1 / (1 + just_below)"
    using just_below_value by (rule conjunct2)
  from g1 ret similarity_python_3_2 e2 similarity_python_just_below e3 jb e4 g5
  show ?thesis by (intro conjI)
qed





subsection \<open>Web fallback search\<close>












subsection \<open>Persistent store\<close>

text \<open>
  The store operations leave the index, the workflow and the log of web queries alone
  (whatever the faults), and with no fault pending a valid message is written after the
  session record is made sure of.
\<close>

lemma store_op_nofault: "store_faults w = [] \<Longrightarrow> store_op w = (True, w)"
  by (simp add: store_op_def)

lemma store_op_frame:
  "store_op w = (ok, w') \<Longrightarrow>
     vector_store w' = vector_store w \<and> graph w' = graph w \<and> web_queries w' = web_queries w
     \<and> graph_inputs w' = graph_inputs w
     \<and> chat_history w' = chat_history w \<and> sessions w' = sessions w \<and> documents w' = documents w
     \<and> clock w' = clock w"
  by (auto simp: store_op_def split: list.splits)

lemma save_session_frame:
  "save_session w sid md = (ok, w') \<Longrightarrow>
     vector_store w' = vector_store w \<and> graph w' = graph w \<and> web_queries w' = web_queries w
     \<and> graph_inputs w' = graph_inputs w
     \<and> chat_history w' = chat_history w \<and> documents w' = documents w"
  by (auto simp: save_session_def utcnow_def split: if_splits prod.splits bool.splits
      dest!: store_op_frame)

lemma get_session_frame:
  "get_session w sid = (r, w') \<Longrightarrow>
     vector_store w' = vector_store w \<and> graph w' = graph w \<and> web_queries w' = web_queries w
     \<and> graph_inputs w' = graph_inputs w
     \<and> chat_history w' = chat_history w \<and> sessions w' = sessions w \<and> documents w' = documents w"
  by (auto simp: get_session_def split: prod.splits bool.splits dest!: store_op_frame)

lemma save_message_frame:
  "save_message w sid msg role md = (ok, w') \<Longrightarrow>
     vector_store w' = vector_store w \<and> graph w' = graph w \<and> web_queries w' = web_queries w
     \<and> graph_inputs w' = graph_inputs w
     \<and> documents w' = documents w"
proof -
  assume a: "save_message w sid msg role md = (ok, w')"
  show ?thesis
  proof (cases "sid = [] \<or> msg = [] \<or> role = [] \<or> role \<notin> set [''user'', ''assistant'', ''system'']")
    case True
    with a show ?thesis by (auto simp: save_message_def split: if_splits)
  next
    case False
    obtain found w1 where g: "get_session w sid = (found, w1)" by (cases "get_session w sid")
    define w2 where "w2 = (if found = None then snd (save_session w1 sid None) else w1)"
    obtain ok3 w3 where o: "store_op w2 = (ok3, w3)" by (cases "store_op w2")
    have f1: "vector_store w1 = vector_store w \<and> graph w1 = graph w \<and> web_queries w1 = web_queries w
     \<and> graph_inputs w1 = graph_inputs w
       \<and> documents w1 = documents w" using get_session_frame [OF g] by simp
    have f2: "vector_store w2 = vector_store w1 \<and> graph w2 = graph w1 \<and> web_queries w2 = web_queries w1
     \<and> graph_inputs w2 = graph_inputs w1
       \<and> documents w2 = documents w1"
      unfolding w2_def using save_session_frame [of w1 sid None]
      by (cases "save_session w1 sid None") auto
    have f3: "vector_store w3 = vector_store w2 \<and> graph w3 = graph w2 \<and> web_queries w3 = web_queries w2
     \<and> graph_inputs w3 = graph_inputs w2
       \<and> documents w3 = documents w2" using store_op_frame [OF o] by simp
    from a False g o have "w' = w3 \<or> (\<exists>t. w' = (snd (utcnow w3))\<lparr>chat_history := t\<rparr>)"
      by (auto simp: save_message_def Let_def w2_def [symmetric] split: prod.splits bool.splits)
    then show ?thesis using f1 f2 f3 by (auto simp: utcnow_def)
  qed
qed

lemma load_history_frame:
  "load_history w sid n = (h, w') \<Longrightarrow>
     vector_store w' = vector_store w \<and> graph w' = graph w \<and> web_queries w' = web_queries w
     \<and> graph_inputs w' = graph_inputs w
     \<and> documents w' = documents w \<and> chat_history w' = chat_history w \<and> sessions w' = sessions w"
  by (auto simp: load_history_def split: prod.splits bool.splits dest!: store_op_frame)

lemma save_exchange_frame:
  "save_exchange w tid q a = (r, w') \<Longrightarrow>
     r = a \<and> vector_store w' = vector_store w \<and> graph w' = graph w \<and> web_queries w' = web_queries w
     \<and> graph_inputs w' = graph_inputs w
     \<and> documents w' = documents w"
proof -
  assume a: "save_exchange w tid q a = (r, w')"
  obtain ok1 w1 where s1: "save_message w tid q ''user'' None = (ok1, w1)"
    by (cases "save_message w tid q ''user'' None")
  obtain ok2 w2 where s2: "save_message w1 tid a ''assistant'' None = (ok2, w2)"
    by (cases "save_message w1 tid a ''assistant'' None")
  from a s1 s2 have "r = a" "w' = w2" by (simp_all add: save_exchange_def)
  with save_message_frame [OF s1] save_message_frame [OF s2] show ?thesis by simp
qed


lemma find_None_list_ex: "find P xs = None \<longleftrightarrow> \<not> list_ex P xs"
  by (auto simp: find_None_iff list_ex_iff)

lemma save_message_nofault:
  assumes nf: "store_faults w = []" and sid: "sid \<noteq> []" and msg: "msg \<noteq> []"
    and role: "role \<in> set [''user'', ''assistant'', ''system'']"
  shows "\<exists>w' t. save_message w sid msg role md = (True, w')
           \<and> chat_history w' = chat_history w @
                 [\<lparr>turn_session_id = sid, turn_content = msg, turn_role = role,
                   turn_timestamp = t, turn_metadata = metadata_or_empty md\<rparr>]
           \<and> store_faults w' = []
           \<and> list_ex (\<lambda>s. session_id s = sid) (sessions w')"
proof -
  from role have rne: "role \<noteq> []" by auto
  have g: "get_session w sid = (find (\<lambda>s. session_id s = sid) (sessions w), w)"
    using nf by (simp add: get_session_def store_op_def)
  define w2 where "w2 = (if find (\<lambda>s. session_id s = sid) (sessions w) = None
                         then snd (save_session w sid None) else w)"
  have w2: "store_faults w2 = [] \<and> chat_history w2 = chat_history w
            \<and> list_ex (\<lambda>s. session_id s = sid) (sessions w2)"
  proof (cases "find (\<lambda>s. session_id s = sid) (sessions w)")
    case None
    then have "\<not> list_ex (\<lambda>s. session_id s = sid) (sessions w)"
      by (simp add: find_None_list_ex)
    then show ?thesis
      using nf sid None by (simp add: w2_def save_session_def store_op_def utcnow_def)
  next
    case (Some s)
    then have "list_ex (\<lambda>s. session_id s = sid) (sessions w)"
      using find_None_list_ex [of "\<lambda>s. session_id s = sid" "sessions w"] by simp
    with Some nf show ?thesis by (simp add: w2_def)
  qed
  then have o: "store_op w2 = (True, w2)" by (simp add: store_op_def)
  have "save_message w sid msg role md =
          (True, (snd (utcnow w2))\<lparr>chat_history := chat_history (snd (utcnow w2)) @
             [\<lparr>turn_session_id = sid, turn_content = msg, turn_role = role,
               turn_timestamp = fst (utcnow w2), turn_metadata = metadata_or_empty md\<rparr>]\<rparr>)"
    using sid msg rne role g o
    by (simp add: save_message_def Let_def w2_def [symmetric] split: prod.splits)
  with w2 show ?thesis by (simp add: utcnow_def)
qed

lemma save_exchange_nofault:
  assumes nf: "store_faults w = []" and tid: "tid \<noteq> []" and q: "q \<noteq> []" and a: "a \<noteq> []"
  shows "\<exists>w' t1 t2. save_exchange w tid q a = (a, w')
           \<and> chat_history w' = chat_history w @
                 [\<lparr>turn_session_id = tid, turn_content = q, turn_role = ''user'',
                   turn_timestamp = t1, turn_metadata = []\<rparr>,
                  \<lparr>turn_session_id = tid, turn_content = a, turn_role = ''assistant'',
                   turn_timestamp = t2, turn_metadata = []\<rparr>]"
proof -
  have r1: "''user'' \<in> set [''user'', ''assistant'', ''system'']"
    and r2: "''assistant'' \<in> set [''user'', ''assistant'', ''system'']" by simp_all
  from save_message_nofault [OF nf tid q r1, of None] obtain w1 t1 where
    s1: "save_message w tid q ''user'' None = (True, w1)"
    and c1: "chat_history w1 = chat_history w @
                 [\<lparr>turn_session_id = tid, turn_content = q, turn_role = ''user'',
                   turn_timestamp = t1, turn_metadata = []\<rparr>]"
    and n1: "store_faults w1 = []"
    by (auto simp: metadata_or_empty_def)
  from save_message_nofault [OF n1 tid a r2, of None] obtain w2 t2 where
    s2: "save_message w1 tid a ''assistant'' None = (True, w2)"
    and c2: "chat_history w2 = chat_history w1 @
                 [\<lparr>turn_session_id = tid, turn_content = a, turn_role = ''assistant'',
                   turn_timestamp = t2, turn_metadata = []\<rparr>]"
    by (auto simp: metadata_or_empty_def)
  have "save_exchange w tid q a = (a, w2)" using s1 s2 by (simp add: save_exchange_def)
  with c1 c2 show ?thesis by simp
qed

text \<open>
  What \<open>save_message\<close> checks before it writes: an empty session identifier, an empty
  message or a role other than \<open>user\<close>, \<open>assistant\<close>, \<open>system\<close> is refused with
  nothing written, and a call writes at most one turn, made of its arguments.
\<close>

lemma save_message_rejects:
  "sid = [] \<or> msg = [] \<or> role \<notin> set [''user'', ''assistant'', ''system''] \<Longrightarrow>
   save_message w sid msg role md = (False, w)"
  by (auto simp: save_message_def)

lemma save_message_written_turn:
  assumes "save_message w sid msg role md = (ok, w')"
  shows "chat_history w' = chat_history w
       \<or> (sid \<noteq> [] \<and> msg \<noteq> [] \<and> role \<in> set [''user'', ''assistant'', ''system'']
          \<and> (\<exists>t. chat_history w' = chat_history w @
                 [\<lparr>turn_session_id = sid, turn_content = msg, turn_role = role,
                   turn_timestamp = t, turn_metadata = metadata_or_empty md\<rparr>]))"
proof (cases "sid = [] \<or> msg = [] \<or> role \<notin> set [''user'', ''assistant'', ''system'']")
  case True
  from save_message_rejects [OF True] assms show ?thesis by simp
next
  case False
  then have rne: "role \<noteq> []" by auto
  obtain found w1 where g: "get_session w sid = (found, w1)" by (cases "get_session w sid")
  define w2 where "w2 = (if found = None then snd (save_session w1 sid None) else w1)"
  obtain ok3 w3 where o: "store_op w2 = (ok3, w3)" by (cases "store_op w2")
  have c1: "chat_history w1 = chat_history w" using get_session_frame [OF g] by simp
  have c2: "chat_history w2 = chat_history w1"
    unfolding w2_def using save_session_frame [of w1 sid None]
    by (cases "save_session w1 sid None") auto
  have c3: "chat_history w3 = chat_history w2" using store_op_frame [OF o] by simp
  show ?thesis
  proof (cases ok3)
    case True
    with assms False rne g o have "w' = (snd (utcnow w3))\<lparr>chat_history := chat_history (snd (utcnow w3)) @
                 [\<lparr>turn_session_id = sid, turn_content = msg, turn_role = role,
                   turn_timestamp = fst (utcnow w3), turn_metadata = metadata_or_empty md\<rparr>]\<rparr>"
      by (auto simp: save_message_def Let_def w2_def [symmetric] split: prod.splits)
    with c1 c2 c3 False show ?thesis by (auto simp: utcnow_def)
  next
    case no: False
    with assms False rne g o have "w' = w3"
      by (auto simp: save_message_def Let_def w2_def [symmetric] split: prod.splits)
    with c1 c2 c3 show ?thesis by simp
  qed
qed


subsection \<open>Orchestrator\<close>

lemma tavily_world: "snd (tavily_search_tool e w q) = w\<lparr>web_queries := web_queries w @ [q]\<rparr>"
  by (simp add: tavily_search_tool_def Let_def split: sum.splits tavily_output.splits)

lemma web_search_node_world:
  "snd (web_search_node e w st) = w\<lparr>web_queries := web_queries w @ [query st]\<rparr>"
  using tavily_world [of e w "query st"]
  by (cases "tavily_search_tool e w (query st)") (simp add: web_search_node_def Let_def)

lemma graph_invoke_world:
  "graph_invoke e w st = Inr (st', w') \<Longrightarrow>
     w' = w \<or> w' = w\<lparr>web_queries := web_queries w @ [query st]\<rparr>"
proof -
  assume a: "graph_invoke e w st = Inr (st', w')"
  have q: "query (pdf_search_node e st (vector_store w)) = query st"
    by (simp add: pdf_search_node_def Let_def split: option.splits)
  from a show ?thesis
    using web_search_node_world [of e w "pdf_search_node e st (vector_store w)"]
    by (auto simp: graph_invoke_def Let_def q split: option.splits if_splits)
qed

lemma query_ends_in_save_exchange:
  "\<exists>wk ans. RAGPipeline_query e w q tid = save_exchange wk tid q ans \<and> ans \<noteq> []
      \<and> chat_history wk = chat_history w \<and> store_faults wk = store_faults (snd (store_op w))"
proof -
  obtain h w1 where l: "load_history w tid 10 = (h, w1)" by (cases "load_history w tid 10")
  then have w1: "chat_history w1 = chat_history w \<and> store_faults w1 = store_faults (snd (store_op w))"
    by (auto simp: load_history_def split: prod.splits bool.splits dest: store_op_frame)
  define w2 where "w2 = (if \<not> graph w1 then update_workflow w1 else w1)"
  have w2: "chat_history w2 = chat_history w1 \<and> store_faults w2 = store_faults w1"
    by (simp add: w2_def update_workflow_def)
  define wi where "wi = w2\<lparr>graph_inputs := graph_inputs w2 @ [initial_state h q tid]\<rparr>"
  have wi: "chat_history wi = chat_history w2 \<and> store_faults wi = store_faults w2"
    by (simp add: wi_def)
  show ?thesis
  proof (cases "vector_store w1 = None")
    case True
    with l w1 show ?thesis by (auto simp: RAGPipeline_query_def)
  next
    case vs: False
    show ?thesis
    proof (cases "graph w2")
      case False
      with l w1 w2 show ?thesis
        by (auto simp: RAGPipeline_query_def Let_def w2_def [symmetric] vs)
    next
      case g: True
      show ?thesis
      proof (cases "graph_invoke e wi (initial_state h q tid)")
        case (Inl err)
        have "RAGPipeline_query e w q tid = save_exchange wi tid q
                (''Sorry, I encountered an error while processing your query: '' @ err)"
          using l g Inl
          by (simp add: RAGPipeline_query_def Let_def w2_def [symmetric] wi_def [symmetric] vs)
        with w1 w2 wi show ?thesis by auto
      next
        case (Inr r)
        obtain result w3 where r: "r = (result, w3)" by (cases r)
        from graph_invoke_world [OF Inr [unfolded r]]
        have w3: "chat_history w3 = chat_history wi \<and> store_faults w3 = store_faults wi" by auto
        define ans where "ans = (if final_answer result = [] \<or> strip (final_answer result) = []
                                 then ''I apologize, but I couldn't find relevant information to answer your question.''
                                 else final_answer result)"
        have ne: "ans \<noteq> []" by (simp add: ans_def)
        have "RAGPipeline_query e w q tid = save_exchange w3 tid q ans"
          using l g Inr r
          by (simp add: RAGPipeline_query_def Let_def w2_def [symmetric] wi_def [symmetric]
              ans_def vs)
        with ne w1 w2 wi w3 show ?thesis by auto
      qed
    qed
  qed
qed

lemma tavily_result_any_world:
  "fst (tavily_search_tool e w q) = fst (tavily_search_tool e w' q)"
  by (simp add: tavily_search_tool_def Let_def split: sum.splits tavily_output.splits)

lemma pdf_search_node_on_error:
  assumes "similarity_search_with_score e vs (query st) 3 = Inl msg"
  shows "pdf_found_content (pdf_search_node e st (Some vs)) = False
       \<and> query (pdf_search_node e st (Some vs)) = query st"
proof -
  have "pdf_retrieval_tool e (query st) (Some vs) = ''Error: Failed to process PDF retrieval - '' @ msg"
    using assms by (simp add: pdf_retrieval_tool_def)
  then show ?thesis by (simp add: pdf_search_node_def Let_def startswith_def)
qed

lemma web_search_node_answer:
  "final_answer (fst (web_search_node e w st)) =
     (case llm_invoke e [SystemMessage SYSTEM_PROMPT,
                         HumanMessage (web_prompt (query st) (fst (tavily_search_tool e w (query st))))] of
        Inr response \<Rightarrow> response
      | Inl err \<Rightarrow> ''Based on web search: '' @ fst (tavily_search_tool e w (query st)))"
  by (cases "tavily_search_tool e w (query st)")
     (simp add: web_search_node_def Let_def split: sum.splits)

lemmas store_eval = load_history_def store_op_def save_exchange_def save_message_def
  get_session_def save_session_def utcnow_def metadata_or_empty_def Let_def

text \<open>
  C1, as stated, fails: when the index query raises, \<open>pdf_retrieval_tool\<close> returns an
  \<open>Error:\<close> text, \<open>pdf_search_node\<close> takes the branch it shares with
  \<open>NO_RELEVANT_CONTENT\<close>, and the workflow runs the web search; the answer is the one
  synthesised from the web result.
\<close>

theorem retrieval_error_counterexample:
  "pdf_retrieval_tool failing_search ''What is the revenue?'' (vector_store indexed_world)
     = ''Error: Failed to process PDF retrieval - index unreadable''
   \<and> fst (RAGPipeline_query failing_search indexed_world ''What is the revenue?'' ''t1'') = ''answer''
   \<and> web_queries (snd (RAGPipeline_query failing_search indexed_world ''What is the revenue?'' ''t1''))
       = [''What is the revenue?'']"
proof -
  have a: "pdf_retrieval_tool failing_search ''What is the revenue?'' (vector_store indexed_world)
     = ''Error: Failed to process PDF retrieval - index unreadable''"
    by (simp add: pdf_retrieval_tool_def failing_search_def fixed_search_def indexed_world_def
        empty_world_def)
  have g: "graph_invoke failing_search
             (indexed_world\<lparr>graph_inputs := [initial_state [] ''What is the revenue?'' ''t1'']\<rparr>)
             (initial_state [] ''What is the revenue?'' ''t1'')
           = Inr ((initial_state [] ''What is the revenue?'' ''t1'')
                    \<lparr>pdf_searched := True, web_searched := True, final_answer := ''answer'',
                     pdf_found_content := False,
                     messages := [HumanMessage (prompt_prefix [] ''What is the revenue?''),
                       AIMessage ''Information not found in PDF, searching web...'',
                       AIMessage ''answer'']\<rparr>,
                  indexed_world\<lparr>web_queries := [''What is the revenue?''],
                    graph_inputs := [initial_state [] ''What is the revenue?'' ''t1'']\<rparr>)"
    by (simp add: graph_invoke_def pdf_search_node_def pdf_retrieval_tool_def
        web_search_node_def tavily_search_tool_def route_after_pdf_def END_def startswith_def
        failing_search_def fixed_search_def indexed_world_def empty_world_def initial_state_def
        Let_def)
  have l: "load_history indexed_world ''t1'' 10 = ([], indexed_world)"
    by (simp add: load_history_def store_op_def indexed_world_def empty_world_def)
  have r: "RAGPipeline_query failing_search indexed_world ''What is the revenue?'' ''t1''
         = save_exchange (indexed_world\<lparr>web_queries := [''What is the revenue?''],
               graph_inputs := [initial_state [] ''What is the revenue?'' ''t1'']\<rparr>) ''t1''
             ''What is the revenue?'' ''answer''"
  proof -
    have gr: "graph indexed_world" "vector_store indexed_world \<noteq> None"
      "graph_inputs indexed_world = []"
      by (simp_all add: indexed_world_def empty_world_def)
    show ?thesis
      unfolding RAGPipeline_query_def l
      by (simp add: gr g Let_def) (simp add: strip_def py_isspace_def)
  qed
  obtain x w' where s: "save_exchange (indexed_world\<lparr>web_queries := [''What is the revenue?''],
               graph_inputs := [initial_state [] ''What is the revenue?'' ''t1'']\<rparr>) ''t1''
             ''What is the revenue?'' ''answer'' = (x, w')"
    by (cases "save_exchange (indexed_world\<lparr>web_queries := [''What is the revenue?''],
               graph_inputs := [initial_state [] ''What is the revenue?'' ''t1'']\<rparr>) ''t1''
             ''What is the revenue?'' ''answer''")
  from save_exchange_frame [OF s] a r s show ?thesis by simp
qed

text \<open>
  C1, amended. When no index exists as the query arrives, the orchestrator answers with
  the fixed message that no PDF documents are uploaded, and the web searcher is not
  invoked. When the index exists and the index query fails in execution, the result is
  handled like a miss: the web searcher is invoked exactly once, with the query, and the
  answer is the synthesis from the web result (the apology text when that is blank).
\<close>

theorem retrieval_error_routing:
  "(vector_store w = None \<longrightarrow>
      fst (RAGPipeline_query e w q tid)
        = ''Error: No PDF documents uploaded yet. Please upload a PDF first.''
      \<and> web_queries (snd (RAGPipeline_query e w q tid)) = web_queries w)
   \<and> (\<forall>vs msg. vector_store w = Some vs \<and> graph_error e = None
          \<and> similarity_search_with_score e vs q 3 = Inl msg \<longrightarrow>
        web_queries (snd (RAGPipeline_query e w q tid)) = web_queries w @ [q]
        \<and> fst (RAGPipeline_query e w q tid) =
            (let web_result = fst (tavily_search_tool e w q);
                 a = (case llm_invoke e [SystemMessage SYSTEM_PROMPT,
                                         HumanMessage (web_prompt q web_result)] of
                        Inr response \<Rightarrow> response
                      | Inl err \<Rightarrow> ''Based on web search: '' @ web_result)
             in if a = [] \<or> strip a = []
                then ''I apologize, but I couldn't find relevant information to answer your question.''
                else a))"
proof -
  obtain h w1 where l: "load_history w tid 10 = (h, w1)" by (cases "load_history w tid 10")
  from load_history_frame [OF l] have f1: "vector_store w1 = vector_store w"
    "web_queries w1 = web_queries w" by simp_all
  have part1: "vector_store w = None \<longrightarrow>
      fst (RAGPipeline_query e w q tid)
        = ''Error: No PDF documents uploaded yet. Please upload a PDF first.''
      \<and> web_queries (snd (RAGPipeline_query e w q tid)) = web_queries w"
  proof
    assume n: "vector_store w = None"
    let ?m = "''Error: No PDF documents uploaded yet. Please upload a PDF first.''"
    have r: "RAGPipeline_query e w q tid = save_exchange w1 tid q ?m"
      using l n f1 by (simp add: RAGPipeline_query_def)
    obtain a w' where s: "save_exchange w1 tid q ?m = (a, w')"
      by (cases "save_exchange w1 tid q ?m")
    from save_exchange_frame [OF s] r s f1
    show "fst (RAGPipeline_query e w q tid) = ?m
      \<and> web_queries (snd (RAGPipeline_query e w q tid)) = web_queries w" by simp
  qed
  have part2: "\<forall>vs msg. vector_store w = Some vs \<and> graph_error e = None
          \<and> similarity_search_with_score e vs q 3 = Inl msg \<longrightarrow>
        web_queries (snd (RAGPipeline_query e w q tid)) = web_queries w @ [q]
        \<and> fst (RAGPipeline_query e w q tid) =
            (let web_result = fst (tavily_search_tool e w q);
                 a = (case llm_invoke e [SystemMessage SYSTEM_PROMPT,
                                         HumanMessage (web_prompt q web_result)] of
                        Inr response \<Rightarrow> response
                      | Inl err \<Rightarrow> ''Based on web search: '' @ web_result)
             in if a = [] \<or> strip a = []
                then ''I apologize, but I couldn't find relevant information to answer your question.''
                else a)"
  proof (intro allI impI, elim conjE)
    fix vs msg
    assume v: "vector_store w = Some vs" and ge: "graph_error e = None"
      and se: "similarity_search_with_score e vs q 3 = Inl msg"
    define wu where "wu = (if \<not> graph w1 then update_workflow w1 else w1)"
    define w2 where "w2 = wu\<lparr>graph_inputs := graph_inputs wu @ [initial_state h q tid]\<rparr>"
    have wu: "graph wu" using v f1 by (auto simp: wu_def update_workflow_def)
    have w2: "vector_store w2 = Some vs" "web_queries w2 = web_queries w" "graph w2"
      using v f1 by (auto simp: w2_def wu_def update_workflow_def)
    let ?st = "initial_state h q tid"
    let ?st1 = "pdf_search_node e ?st (Some vs)"
    have qs: "query ?st = q" by (simp add: initial_state_def)
    from pdf_search_node_on_error [of e vs ?st msg] se qs
    have p: "pdf_found_content ?st1 = False" "query ?st1 = q" by simp_all
    have gi: "graph_invoke e w2 ?st = Inr (web_search_node e w2 ?st1)"
      using ge w2 p by (simp add: graph_invoke_def Let_def route_after_pdf_def END_def)
    obtain st2 w3 where ws: "web_search_node e w2 ?st1 = (st2, w3)"
      by (cases "web_search_node e w2 ?st1")
    from web_search_node_world [of e w2 ?st1] ws p w2
    have w3: "web_queries w3 = web_queries w @ [q]" by simp
    from web_search_node_answer [of e w2 ?st1] ws p
    have fa: "final_answer st2 =
       (case llm_invoke e [SystemMessage SYSTEM_PROMPT,
                         HumanMessage (web_prompt q (fst (tavily_search_tool e w q)))] of
        Inr response \<Rightarrow> response
      | Inl err \<Rightarrow> ''Based on web search: '' @ fst (tavily_search_tool e w q))"
      using tavily_result_any_world [of e w2 q w] by (simp split: sum.splits)
    define ans where "ans = (if final_answer st2 = [] \<or> strip (final_answer st2) = []
                then ''I apologize, but I couldn't find relevant information to answer your question.''
                else final_answer st2)"
    have r: "RAGPipeline_query e w q tid = save_exchange w3 tid q ans"
      using l v f1 wu gi ws
      by (simp add: RAGPipeline_query_def Let_def wu_def [symmetric] w2_def [symmetric] ans_def)
    obtain a w' where s: "save_exchange w3 tid q ans = (a, w')"
      by (cases "save_exchange w3 tid q ans")
    from save_exchange_frame [OF s] r s w3
    have "fst (RAGPipeline_query e w q tid) = ans
      \<and> web_queries (snd (RAGPipeline_query e w q tid)) = web_queries w @ [q]" by simp
    then show "web_queries (snd (RAGPipeline_query e w q tid)) = web_queries w @ [q]
        \<and> fst (RAGPipeline_query e w q tid) =
            (let web_result = fst (tavily_search_tool e w q);
                 a = (case llm_invoke e [SystemMessage SYSTEM_PROMPT,
                                         HumanMessage (web_prompt q web_result)] of
                        Inr response \<Rightarrow> response
                      | Inl err \<Rightarrow> ''Based on web search: '' @ web_result)
             in if a = [] \<or> strip a = []
                then ''I apologize, but I couldn't find relevant information to answer your question.''
                else a)"
      by (simp add: ans_def fa Let_def)
  qed
  from part1 part2 show ?thesis by blast
qed


theorem retrieval_error_routing_witness:
  "fst (RAGPipeline_query (fixed_search []) empty_world ''q'' ''t1'')
        = ''Error: No PDF documents uploaded yet. Please upload a PDF first.''
   \<and> web_queries (snd (RAGPipeline_query (fixed_search []) empty_world ''q'' ''t1'')) = []
   \<and> web_queries (snd (RAGPipeline_query failing_search indexed_world ''q'' ''t1'')) = [''q'']"
proof -
  have h1: "vector_store empty_world = None" by (simp add: empty_world_def)
  have h2: "vector_store indexed_world = Some [chunk ''A''] \<and> graph_error failing_search = None
      \<and> similarity_search_with_score failing_search [chunk ''A''] ''q'' 3 = Inl ''index unreadable''"
    by (simp add: indexed_world_def empty_world_def failing_search_def fixed_search_def)
  have w0: "web_queries empty_world = []" "web_queries indexed_world = []"
    by (simp_all add: indexed_world_def empty_world_def)
  from retrieval_error_routing [of empty_world "fixed_search []" "''q''" "''t1''"] h1 w0
  have p1: "fst (RAGPipeline_query (fixed_search []) empty_world ''q'' ''t1'')
        = ''Error: No PDF documents uploaded yet. Please upload a PDF first.''
   \<and> web_queries (snd (RAGPipeline_query (fixed_search []) empty_world ''q'' ''t1'')) = []"
    by simp
  from retrieval_error_routing [of indexed_world failing_search "''q''" "''t1''"] h2
  have "web_queries (snd (RAGPipeline_query failing_search indexed_world ''q'' ''t1''))
          = web_queries indexed_world @ [''q'']"
    by blast
  with p1 w0 show ?thesis by simp
qed

text \<open>
  C2, as stated, fails: \<open>save_message\<close> rejects an empty message, so a call of the
  query operation with the empty query appends the assistant's turn only.
\<close>

theorem query_empty_text_counterexample:
  "chat_history empty_world = []
   \<and> map turn_role (chat_history (snd (RAGPipeline_query (fixed_search []) empty_world [] ''t1'')))
       = [''assistant'']"
  by (simp add: RAGPipeline_query_def store_eval empty_world_def)

text \<open>
  C2, amended. For a query and a session identifier that are not empty, and with no
  store fault pending, every call of the query operation, on each of its paths (no
  index, no workflow, an error of the workflow runtime, a grounded or a web answer),
  appends exactly two turns to the history: the query with role \<open>user\<close>, then the
  returned answer with role \<open>assistant\<close>; the answer is never empty.
\<close>

theorem query_persists_exchange:
  assumes "store_faults w = []" and "user_query \<noteq> []" and "tid \<noteq> []"
  shows "\<exists>w' answer t1 t2. RAGPipeline_query e w user_query tid = (answer, w') \<and> answer \<noteq> []
           \<and> chat_history w' = chat_history w @
                 [\<lparr>turn_session_id = tid, turn_content = user_query, turn_role = ''user'',
                   turn_timestamp = t1, turn_metadata = []\<rparr>,
                  \<lparr>turn_session_id = tid, turn_content = answer, turn_role = ''assistant'',
                   turn_timestamp = t2, turn_metadata = []\<rparr>]"
proof -
  from query_ends_in_save_exchange [of e w user_query tid] obtain wk ans where
    q: "RAGPipeline_query e w user_query tid = save_exchange wk tid user_query ans"
    and ne: "ans \<noteq> []" and c: "chat_history wk = chat_history w"
    and f: "store_faults wk = store_faults (snd (store_op w))" by blast
  from f assms(1) have nf: "store_faults wk = []" by (simp add: store_op_def)
  from save_exchange_nofault [OF nf assms(3) assms(2) ne] q c ne show ?thesis by auto
qed

theorem query_persists_exchange_witness:
  "\<exists>w' t1 t2. RAGPipeline_query (fixed_search [(chunk ''A'', 1)]) indexed_world ''hello'' ''t1''
        = (''answer'', w')
      \<and> chat_history w' =
            [\<lparr>turn_session_id = ''t1'', turn_content = ''hello'', turn_role = ''user'',
              turn_timestamp = t1, turn_metadata = []\<rparr>,
             \<lparr>turn_session_id = ''t1'', turn_content = ''answer'', turn_role = ''assistant'',
              turn_timestamp = t2, turn_metadata = []\<rparr>]"
proof -
  have h1: "store_faults indexed_world = []" by (simp add: indexed_world_def empty_world_def)
  have h2: "''hello'' \<noteq> []" and h3: "''t1'' \<noteq> []" by simp_all
  have c: "chat_history indexed_world = []" by (simp add: indexed_world_def empty_world_def)
  have l: "load_history indexed_world ''t1'' 10 = ([], indexed_world)"
    by (simp add: load_history_def store_op_def indexed_world_def empty_world_def)
  have p: "pdf_retrieval_tool (fixed_search [(chunk ''A'', 1)]) ''hello'' (Some [chunk ''A''])
       = ''PDF Content: A''"
    by (simp add: pdf_retrieval_tool_def fixed_search_def python_eval chunk_def strip_def
        py_isspace_def)
  have g: "final_answer (pdf_search_node (fixed_search [(chunk ''A'', 1)])
             (initial_state [] ''hello'' ''t1'') (Some [chunk ''A''])) = ''answer''
        \<and> pdf_found_content (pdf_search_node (fixed_search [(chunk ''A'', 1)])
             (initial_state [] ''hello'' ''t1'') (Some [chunk ''A'']))"
    unfolding pdf_search_node_def
    by (simp add: initial_state_def p startswith_def Let_def) (simp add: fixed_search_def)
  have a: "fst (RAGPipeline_query (fixed_search [(chunk ''A'', 1)]) indexed_world ''hello'' ''t1'')
       = ''answer''"
    unfolding RAGPipeline_query_def l
    using g
    by (simp add: graph_invoke_def route_after_pdf_def Let_def save_exchange_def
          indexed_world_def fixed_search_def strip_def py_isspace_def)
  from query_persists_exchange [OF h1 h2 h3, of "fixed_search [(chunk ''A'', 1)]"] a c
  show ?thesis by auto
qed

text \<open>
  C9, at a failing input: the session \<open>s1\<close> has no record, the lookup succeeds, the
  insertion of the session record raises and the insertion of the message succeeds.
  \<open>save_message\<close> drops the result of \<open>save_session\<close>, so the turn is written and
  returns success while no session record exists.
\<close>

theorem save_message_orphan_turn:
  "fst (save_message (empty_world\<lparr>store_faults := [False, True, False]\<rparr>) ''s1'' ''hi'' ''user'' None)
   \<and> map turn_session_id (chat_history (snd (save_message
         (empty_world\<lparr>store_faults := [False, True, False]\<rparr>) ''s1'' ''hi'' ''user'' None))) = [''s1'']
   \<and> sessions (snd (save_message
         (empty_world\<lparr>store_faults := [False, True, False]\<rparr>) ''s1'' ''hi'' ''user'' None)) = []"
  by (simp add: store_eval empty_world_def)

subsection \<open>Document ingestion\<close>

lemma save_document_metadata_fault:
  "store_faults w = True # rest \<Longrightarrow>
   save_document_metadata w sid fname fsize chash n = (False, w\<lparr>store_faults := rest\<rparr>)"
  by (simp add: save_document_metadata_def store_op_def)

lemmas ingest_eval = process_pdf_file_def ingest_env_def fixed_search_def empty_world_def
  indexed_world_def endswith_def lower_def py_lower_char_def save_document_metadata_def
  store_op_def utcnow_def Let_def

text \<open>
  C8. When an ingestion call gets as far as the index (PDF suffix, pages loaded, chunks
  made, bytes read, chunks embedded, size read) and the persistence of the document's
  metadata fails, the call returns failure with the message that the metadata could not
  be saved and a chunk count of 0, no document record is written, and the index keeps
  the new chunks: created from them, or extended by them.
\<close>

theorem ingestion_not_rolled_back:
  assumes "endswith (lower file_path) ''.pdf''"
    and "load_pdf e file_path = Inr pages" and "pages \<noteq> []"
    and "split_documents e 1000 100 pages = chunks" and "chunks \<noteq> []"
    and "read_file e file_path = Inr raw"
    and "embed_error e chunks = None"
    and "getsize e file_path = Inr fsize"
    and "store_faults w = True # rest"
  shows "fst (process_pdf_file e w file_path fname sid)
           = (False, ''Failed to save document metadata'', 0)
       \<and> vector_store (snd (process_pdf_file e w file_path fname sid))
           = Some (case vector_store w of None \<Rightarrow> chunks | Some vs \<Rightarrow> vs @ chunks)
       \<and> documents (snd (process_pdf_file e w file_path fname sid)) = documents w"
proof -
  let ?w1 = "w\<lparr>vector_store := (case vector_store w of None \<Rightarrow> Some chunks
                                   | Some vs \<Rightarrow> Some (vs @ chunks))\<rparr>"
  have f: "store_faults ?w1 = True # rest" using assms(9) by simp
  have "process_pdf_file e w file_path fname sid =
          ((False, ''Failed to save document metadata'', 0), ?w1\<lparr>store_faults := rest\<rparr>)"
    using assms(1-8) save_document_metadata_fault [OF f]
    by (simp add: process_pdf_file_def Let_def)
  then show ?thesis by (simp split: option.splits)
qed

theorem ingestion_not_rolled_back_witness:
  "fst (process_pdf_file ingest_env (indexed_world\<lparr>store_faults := [True]\<rparr>)
          ''a.pdf'' ''a.pdf'' ''s1'')
     = (False, ''Failed to save document metadata'', 0)
   \<and> vector_store (snd (process_pdf_file ingest_env (indexed_world\<lparr>store_faults := [True]\<rparr>)
          ''a.pdf'' ''a.pdf'' ''s1''))
     = Some [chunk ''A'', chunk ''page one'']
   \<and> documents (snd (process_pdf_file ingest_env (indexed_world\<lparr>store_faults := [True]\<rparr>)
          ''a.pdf'' ''a.pdf'' ''s1'')) = []"
proof -
  let ?w = "indexed_world\<lparr>store_faults := [True]\<rparr>"
  have h1: "endswith (lower ''a.pdf'') ''.pdf''"
    by (simp add: endswith_def lower_def py_lower_char_def)
  have h2: "load_pdf ingest_env ''a.pdf'' = Inr [chunk ''page one'']"
    and h4: "split_documents ingest_env 1000 100 [chunk ''page one''] = [chunk ''page one'']"
    and h6: "read_file ingest_env ''a.pdf'' = Inr ''%PDF-1.4''"
    and h7: "embed_error ingest_env [chunk ''page one''] = None"
    and h8: "getsize ingest_env ''a.pdf'' = Inr 8"
    by (simp_all add: ingest_env_def fixed_search_def)
  have h3: "[chunk ''page one''] \<noteq> []" by simp
  have h9: "store_faults ?w = True # []" by simp
  have v: "vector_store ?w = Some [chunk ''A'']" "documents ?w = []"
    by (simp_all add: indexed_world_def empty_world_def)
  from ingestion_not_rolled_back [OF h1 h2 h3 h4 h3 h6 h7 h8 h9, of "''a.pdf''" "''s1''"] v
  show ?thesis by simp
qed

lemma process_pdf_file_success:
  assumes "process_pdf_file e w file_path fname sid = ((True, m, n), w')"
    and "read_file e file_path = Inr raw"
  shows "\<exists>d. documents w' = documents w @ [d] \<and> content_hash d = sha256_hexdigest e raw
           \<and> filename d = fname \<and> doc_session_id d = sid"
  using assms
  by (auto simp: process_pdf_file_def Let_def save_document_metadata_def utcnow_def
      split: if_splits sum.splits option.splits prod.splits bool.splits dest!: store_op_frame)

text \<open>
  C10. Two successful ingestions of files with the same bytes record the same content
  fingerprint, whatever the file names, sessions, store contents and clock: the
  fingerprint is the hash of the raw bytes and of nothing else.
\<close>

theorem fingerprint_deterministic:
  assumes "process_pdf_file e1 w1 p1 f1 s1 = ((True, m1, n1), w1')"
    and "process_pdf_file e2 w2 p2 f2 s2 = ((True, m2, n2), w2')"
    and "read_file e1 p1 = Inr raw" and "read_file e2 p2 = Inr raw"
    and "sha256_hexdigest e1 = sha256_hexdigest e2"
  shows "documents w1' \<noteq> [] \<and> documents w2' \<noteq> []
       \<and> content_hash (last (documents w1')) = content_hash (last (documents w2'))
       \<and> content_hash (last (documents w1')) = sha256_hexdigest e1 raw"
proof -
  from process_pdf_file_success [OF assms(1) assms(3)] obtain d1 where
    d1: "documents w1' = documents w1 @ [d1]" "content_hash d1 = sha256_hexdigest e1 raw" by blast
  from process_pdf_file_success [OF assms(2) assms(4)] obtain d2 where
    d2: "documents w2' = documents w2 @ [d2]" "content_hash d2 = sha256_hexdigest e2 raw" by blast
  from d1 d2 assms(5) show ?thesis by simp
qed

theorem fingerprint_deterministic_witness:
  "content_hash (last (documents (snd (process_pdf_file ingest_env empty_world
       ''a.pdf'' ''a.pdf'' ''s1''))))
     = content_hash (last (documents (snd (process_pdf_file ingest_env indexed_world
       ''b.pdf'' ''copy.pdf'' ''s2''))))
   \<and> content_hash (last (documents (snd (process_pdf_file ingest_env empty_world
       ''a.pdf'' ''a.pdf'' ''s1'')))) = ''sha:%PDF-1.4''"
proof -
  have "fst (fst (process_pdf_file ingest_env empty_world ''a.pdf'' ''a.pdf'' ''s1''))"
    by (simp add: ingest_eval)
  then obtain m1 n1 w1' where r1: "process_pdf_file ingest_env empty_world ''a.pdf'' ''a.pdf'' ''s1''
      = ((True, m1, n1), w1')"
    by (cases "process_pdf_file ingest_env empty_world ''a.pdf'' ''a.pdf'' ''s1''") auto
  have "fst (fst (process_pdf_file ingest_env indexed_world ''b.pdf'' ''copy.pdf'' ''s2''))"
    by (simp add: ingest_eval)
  then obtain m2 n2 w2' where r2: "process_pdf_file ingest_env indexed_world ''b.pdf'' ''copy.pdf'' ''s2''
      = ((True, m2, n2), w2')"
    by (cases "process_pdf_file ingest_env indexed_world ''b.pdf'' ''copy.pdf'' ''s2''") auto
  have b1: "read_file ingest_env ''a.pdf'' = Inr ''%PDF-1.4''"
    and b2: "read_file ingest_env ''b.pdf'' = Inr ''%PDF-1.4''"
    and sh: "sha256_hexdigest ingest_env ''%PDF-1.4'' = ''sha:%PDF-1.4''"
    by (simp_all add: ingest_env_def fixed_search_def)
  from fingerprint_deterministic [OF r1 r2 b1 b2 refl] have
    "content_hash (last (documents w1')) = content_hash (last (documents w2'))"
    "content_hash (last (documents w1')) = sha256_hexdigest ingest_env ''%PDF-1.4''"
    by blast+
  then show ?thesis unfolding sh using r1 r2 by simp
qed


subsection \<open>Conversational context\<close>

lemma query_hands_prompt:
  assumes "vector_store w \<noteq> None"
  shows "graph_inputs (snd (RAGPipeline_query e w q tid))
           = graph_inputs w @ [initial_state (fst (load_history w tid 10)) q tid]"
proof -
  obtain h w1 where l: "load_history w tid 10 = (h, w1)" by (cases "load_history w tid 10")
  from load_history_frame [OF l] assms have f1: "vector_store w1 \<noteq> None"
    "graph_inputs w1 = graph_inputs w" by simp_all
  define wu where "wu = (if \<not> graph w1 then update_workflow w1 else w1)"
  define wi where "wi = wu\<lparr>graph_inputs := graph_inputs wu @ [initial_state h q tid]\<rparr>"
  have wu: "graph wu" "graph_inputs wu = graph_inputs w"
    using f1 by (auto simp: wu_def update_workflow_def)
  have wi: "graph_inputs wi = graph_inputs w @ [initial_state h q tid]"
    using wu by (simp add: wi_def)
  have "\<exists>wk ans. RAGPipeline_query e w q tid = save_exchange wk tid q ans
          \<and> graph_inputs wk = graph_inputs wi"
  proof (cases "graph_invoke e wi (initial_state h q tid)")
    case (Inl err)
    have "RAGPipeline_query e w q tid = save_exchange wi tid q
            (''Sorry, I encountered an error while processing your query: '' @ err)"
      using l wu(1) Inl
      by (simp add: RAGPipeline_query_def Let_def wu_def [symmetric] wi_def [symmetric] f1(1))
    then show ?thesis by blast
  next
    case (Inr r)
    obtain result w3 where r: "r = (result, w3)" by (cases r)
    from graph_invoke_world [OF Inr [unfolded r]]
    have w3: "graph_inputs w3 = graph_inputs wi" by auto
    have "\<exists>ans. RAGPipeline_query e w q tid = save_exchange w3 tid q ans"
      using l wu(1) Inr r
      by (auto simp: RAGPipeline_query_def Let_def wu_def [symmetric] wi_def [symmetric] f1(1))
    with w3 show ?thesis by blast
  qed
  then obtain wk ans where k: "RAGPipeline_query e w q tid = save_exchange wk tid q ans"
    and gk: "graph_inputs wk = graph_inputs wi" by blast
  obtain a w' where s: "save_exchange wk tid q ans = (a, w')"
    by (cases "save_exchange wk tid q ans")
  from save_exchange_frame [OF s] k s gk wi l show ?thesis by simp
qed

lemma upper_initials: "char_of (85::nat) = CHR ''U'' \<and> char_of (65::nat) = CHR ''A''"
  by code_simp

lemmas history_eval = load_history_def store_op_def world11_def indexed_world_def
  empty_world_def turn_at_def session_turns_def last_turns_def

text \<open>
  C4, at a failing input: the session \<open>s\<close> holds eleven persisted turns \<open>m1\<close> to
  \<open>m11\<close>, an index exists, and the query is \<open>what did you say earlier\<close>.
  \<open>RAGPipeline.query\<close> loads the history with \<open>load_history(thread_id, limit=10)\<close>,
  which sorts by ascending time and then cuts at the limit: the prompt it hands to the
  workflow carries the oldest ten turns \<open>m1\<close> to \<open>m10\<close> and leaves out \<open>m11\<close>,
  the latest one, while the last ten persisted turns are \<open>m2\<close> to \<open>m11\<close>.
\<close>

theorem history_context_oldest_turns:
  "map turn_content (session_turns world11 ''s'')
     = [''m1'', ''m2'', ''m3'', ''m4'', ''m5'', ''m6'', ''m7'', ''m8'', ''m9'', ''m10'', ''m11'']
   \<and> map turn_content (last_turns world11 ''s'' 10)
     = [''m2'', ''m3'', ''m4'', ''m5'', ''m6'', ''m7'', ''m8'', ''m9'', ''m10'', ''m11'']
   \<and> map messages (graph_inputs (snd (RAGPipeline_query (fixed_search []) world11
         ''what did you say earlier'' ''s'')))
     = [[HumanMessage (history_prompt
          (join [NL] [''User: m1'', ''Assistant: m2'', ''User: m3'', ''Assistant: m4'',
             ''User: m5'', ''Assistant: m6'', ''User: m7'', ''Assistant: m8'', ''User: m9'',
             ''Assistant: m10''])
          ''what did you say earlier'')]]"
proof -
  have l: "fst (load_history world11 ''s'' 10) =
     [(''user'', ''m1'', 1), (''assistant'', ''m2'', 2), (''user'', ''m3'', 3),
      (''assistant'', ''m4'', 4), (''user'', ''m5'', 5), (''assistant'', ''m6'', 6),
      (''user'', ''m7'', 7), (''assistant'', ''m8'', 8), (''user'', ''m9'', 9),
      (''assistant'', ''m10'', 10)]"
    by (simp add: history_eval)
  have a: "map turn_content (session_turns world11 ''s'')
     = [''m1'', ''m2'', ''m3'', ''m4'', ''m5'', ''m6'', ''m7'', ''m8'', ''m9'', ''m10'', ''m11'']"
    by (simp add: history_eval)
  have t: "map turn_content (last_turns world11 ''s'' 10)
     = [''m2'', ''m3'', ''m4'', ''m5'', ''m6'', ''m7'', ''m8'', ''m9'', ''m10'', ''m11'']"
    by (simp add: history_eval)
  have r: "history_relevant ''what did you say earlier''"
    by (simp add: history_relevant_def lower_def py_lower_char_def startswith_def)
  have hc: "history_context (fst (load_history world11 ''s'' 10)) =
      join [NL] [''User: m1'', ''Assistant: m2'', ''User: m3'', ''Assistant: m4'',
         ''User: m5'', ''Assistant: m6'', ''User: m7'', ''Assistant: m8'', ''User: m9'',
         ''Assistant: m10'']"
    unfolding l
    by (simp add: history_context_def capitalize_def py_upper_ascii_def lower_def
        py_lower_char_def strip_def py_isspace_def upper_initials)
  have p: "prompt_prefix (fst (load_history world11 ''s'' 10)) ''what did you say earlier''
     = history_prompt (join [NL] [''User: m1'', ''Assistant: m2'', ''User: m3'', ''Assistant: m4'',
         ''User: m5'', ''Assistant: m6'', ''User: m7'', ''Assistant: m8'', ''User: m9'',
         ''Assistant: m10'']) ''what did you say earlier''"
    unfolding prompt_prefix_def hc using r by simp
  have v: "vector_store world11 \<noteq> None" "graph_inputs world11 = []"
    by (simp_all add: world11_def indexed_world_def empty_world_def)
  from query_hands_prompt [OF v(1), of "fixed_search []" "''what did you say earlier''" "''s''"] v(2)
  have "map messages (graph_inputs (snd (RAGPipeline_query (fixed_search []) world11
         ''what did you say earlier'' ''s'')))
     = [[HumanMessage (prompt_prefix (fst (load_history world11 ''s'' 10))
           ''what did you say earlier'')]]"
    by (simp add: initial_state_def)
  with a t p show ?thesis by simp
qed

end
